theory Spec2Isabelle
  imports Main "HOL-Library.AList" "HOL-Library.Sublist"
begin

section \<open>JavaScript values\<close>

text \<open>
  The node handles JSON data: parameters read from the host, request bodies and the
  responses of the Soniox API. A value is a tree; an object keeps its properties in
  insertion order, as \<^verbatim>\<open>Object.keys\<close> and the spread operator see them. Numbers are the
  integers (seconds, HTTP codes); strings are ASCII character lists.
\<close>

datatype json =
    JUndefined
  | JNull
  | JBool bool
  | JNum int
  | JStr string
  | JArr "json list"
  | JObj "(string \<times> json) list"

text \<open>Truthiness, as \<^verbatim>\<open>if (v)\<close>, \<^verbatim>\<open>!v\<close>, \<^verbatim>\<open>a || b\<close> and \<^verbatim>\<open>a && b\<close> test it.\<close>

fun truthy :: "json \<Rightarrow> bool" where
  "truthy JUndefined = False"
| "truthy JNull = False"
| "truthy (JBool b) = b"
| "truthy (JNum n) = (n \<noteq> 0)"
| "truthy (JStr s) = (s \<noteq> [])"
| "truthy (JArr xs) = True"
| "truthy (JObj kvs) = True"

text \<open>\<^verbatim>\<open>String.prototype.trim\<close> on ASCII text: tab, line feed, vertical tab, form feed,
  carriage return and space are removed from both ends.\<close>

definition is_ws :: "char \<Rightarrow> bool" where
  "is_ws c = (c \<in> set [CHR 0x09, CHR 0x0A, CHR 0x0B, CHR 0x0C, CHR 0x0D, CHR 0x20])"

definition js_trim :: "string \<Rightarrow> string" where
  "js_trim s = rev (dropWhile is_ws (rev (dropWhile is_ws s)))"

text \<open>
  \<^verbatim>\<open>function isNonEmptyString(value: unknown): value is string {
    return typeof value === 'string' && value.trim() !== '';
  }\<close>
\<close>

fun isNonEmptyString :: "json \<Rightarrow> bool" where
  "isNonEmptyString (JStr s) = (js_trim s \<noteq> [])"
| "isNonEmptyString v = False"

text \<open>Decimal rendering of an integer, as a template literal prints a number.\<close>

definition digit_char :: "nat \<Rightarrow> char" where
  "digit_char d = ''0123456789'' ! d"

function show_nat :: "nat \<Rightarrow> string" where
  "show_nat n = (if n < 10 then [digit_char n] else show_nat (n div 10) @ [digit_char (n mod 10)])"
  by pat_completeness auto
termination
  by (relation "measure (\<lambda>n. n)") auto

definition show_int :: "int \<Rightarrow> string" where
  "show_int i = (if i < 0 then CHR ''-'' # show_nat (nat (- i)) else show_nat (nat i))"

text \<open>Joining with a separator, as \<^verbatim>\<open>Array.prototype.join\<close>.\<close>

fun join :: "string \<Rightarrow> string list \<Rightarrow> string" where
  "join sep [] = []"
| "join sep [x] = x"
| "join sep (x # y # ys) = x @ sep @ join sep (y # ys)"

text \<open>String conversion of a value inside a template literal \<^verbatim>\<open>`${v}`\<close>: an array prints
  its elements joined by commas (\<^verbatim>\<open>null\<close> and \<^verbatim>\<open>undefined\<close> elements as the empty
  string), an object prints \<^verbatim>\<open>[object Object]\<close>.\<close>

fun js_toString :: "json \<Rightarrow> string" where
  "js_toString JUndefined = ''undefined''"
| "js_toString JNull = ''null''"
| "js_toString (JBool b) = (if b then ''true'' else ''false'')"
| "js_toString (JNum n) = show_int n"
| "js_toString (JStr s) = s"
| "js_toString (JArr xs) =
     join '','' (map (\<lambda>x. if x = JNull \<or> x = JUndefined then [] else js_toString x) xs)"
| "js_toString (JObj kvs) = ''[object Object]''"

text \<open>Property reads. \<^verbatim>\<open>hasOwnProperty\<close> and a read of a property of an object look the
  key up among the object's own properties; a read on an array or a primitive finds
  none of the keys the node uses.\<close>

definition hasOwnProperty :: "(string \<times> json) list \<Rightarrow> string \<Rightarrow> bool" where
  "hasOwnProperty kvs k = (map_of kvs k \<noteq> None)"

definition get_prop :: "(string \<times> json) list \<Rightarrow> string \<Rightarrow> json" where
  "get_prop kvs k = (case map_of kvs k of Some v \<Rightarrow> v | None \<Rightarrow> JUndefined)"

text \<open>\<^verbatim>\<open>v?.k\<close>: \<^verbatim>\<open>undefined\<close> on \<^verbatim>\<open>null\<close> and \<^verbatim>\<open>undefined\<close>.\<close>

fun get_opt :: "json \<Rightarrow> string \<Rightarrow> json" where
  "get_opt (JObj kvs) k = get_prop kvs k"
| "get_opt v k = JUndefined"

section \<open>Errors\<close>

text \<open>
  The error object that the host's HTTP helper throws, as the node reads it:
  \<^verbatim>\<open>interface SonioxApiError {
    message?: string; description?: string; httpCode?: number;
    cause?: { message?: string; code?: string;
              error?: { message?: string; detail?: string; code?: string } };
    response?: { statusCode?: number;
                 body?: { message?: string; detail?: string; error?: string; code?: string } };
  }\<close>
  An absent field is \<open>None\<close>.
\<close>

record cause_error =
  ce_message :: "string option"
  ce_detail :: "string option"
  ce_code :: "string option"

record error_cause =
  c_message :: "string option"
  c_code :: "string option"
  c_error :: "cause_error option"

record response_body =
  b_message :: "string option"
  b_detail :: "string option"
  b_error :: "string option"
  b_code :: "string option"

record error_response =
  statusCode :: "int option"
  body :: "response_body option"

record SonioxApiError =
  message :: "string option"
  description :: "string option"
  httpCode :: "int option"
  cause :: "error_cause option"
  response :: "error_response option"

text \<open>
  Everything the node can throw. \<open>NodeOperationError m d\<close> is the error that
  \<^verbatim>\<open>new NodeOperationError(this.getNode(), m, { description: d })\<close> builds: it carries the
  text and the optional description that the node gives the constructor. The constructor
  is code of the host library n8n-workflow, not of this repository, and the message of the
  error it builds need not be the text: the library replaces a text that holds one of its
  common error codes. \<open>NodeOperationErrorInherited m k\<close> is such an error whose description
  is not a string: it is the member \<open>k\<close> that every object literal inherits from
  \<^verbatim>\<open>Object.prototype\<close>, which the lookup of an error hint can return. \<open>HttpError\<close> is an
  error of the HTTP helper that travels on unchanged.
\<close>

datatype error =
    NodeOperationError string "string option"
  | NodeOperationErrorInherited string string
  | ApplicationError string
  | TypeError string
  | HttpError SonioxApiError
  | SyntaxError string
  | ExecutionCancelledError
  | HostError string

section \<open>Redaction of the webhook secret\<close>

text \<open>
  Objects have identity. A heap is the list of the objects allocated so far; an address
  is an index into it. A new object literal is allocated at the end.
\<close>

type_synonym addr = nat
type_synonym heap = "json list"

definition deref :: "heap \<Rightarrow> addr \<Rightarrow> json" where
  "deref h a = (if a < length h then h ! a else JUndefined)"

definition alloc :: "json \<Rightarrow> heap \<Rightarrow> addr \<times> heap" where
  "alloc v h = (length h, h @ [v])"

text \<open>
  \<^verbatim>\<open>function redactWebhookAuthHeaderValue(data: IDataObject): IDataObject {
    if (!data || typeof data !== 'object') return data;
    if (!Object.prototype.hasOwnProperty.call(data, 'webhook_auth_header_value')) return data;
    return { ...data, webhook_auth_header_value: '[REDACTED]' };
  }\<close>
  The spread copies the own properties in order; the key is already among them, so the
  assignment replaces its value in place.
\<close>

definition redactWebhookAuthHeaderValue :: "addr \<Rightarrow> heap \<Rightarrow> addr \<times> heap" where
  "redactWebhookAuthHeaderValue data h =
     (case deref h data of
        JObj kvs \<Rightarrow>
          if \<not> hasOwnProperty kvs ''webhook_auth_header_value'' then (data, h)
          else alloc (JObj (AList.update ''webhook_auth_header_value'' (JStr ''[REDACTED]'') kvs)) h
      | _ \<Rightarrow> (data, h))"

section \<open>Language hints\<close>

text \<open>\<^verbatim>\<open>entry.code\<close> inside the \<^verbatim>\<open>map\<close> callback: a \<^verbatim>\<open>null\<close> or \<^verbatim>\<open>undefined\<close> entry
  throws a TypeError.\<close>

fun entry_code :: "json \<Rightarrow> error + json" where
  "entry_code JNull = Inl (TypeError ''Cannot read properties of null (reading code)'')"
| "entry_code JUndefined = Inl (TypeError ''Cannot read properties of undefined (reading code)'')"
| "entry_code v = Inr (get_opt v ''code'')"

fun map_codes :: "json list \<Rightarrow> error + json list" where
  "map_codes [] = Inr []"
| "map_codes (e # es) =
     (case entry_code e of
        Inl err \<Rightarrow> Inl err
      | Inr c \<Rightarrow> (case map_codes es of Inl err \<Rightarrow> Inl err | Inr cs \<Rightarrow> Inr (c # cs)))"

text \<open>
  \<^verbatim>\<open>function normalizeLanguageHints(input: IDataObject): string[] {
    if (!input || typeof input !== 'object') { return []; }
    const languages = input.languages as IDataObject[] | undefined;
    if (!Array.isArray(languages)) { return []; }
    return languages.map((entry) => entry.code).filter(isNonEmptyString);
  }\<close>
\<close>

definition normalizeLanguageHints :: "json \<Rightarrow> error + json list" where
  "normalizeLanguageHints input =
     (case get_opt input ''languages'' of
        JArr languages \<Rightarrow>
          (case map_codes languages of
             Inl err \<Rightarrow> Inl err
           | Inr codes \<Rightarrow> Inr (filter isNonEmptyString codes))
      | _ \<Rightarrow> Inr [])"

text \<open>The specification's wording, entry by entry: an entry whose code is a string that
  is non-empty after trimming contributes that code, unaltered; any other entry
  contributes nothing.\<close>

fun spec_language_codes :: "(string \<times> json) list list \<Rightarrow> string list" where
  "spec_language_codes [] = []"
| "spec_language_codes (e # es) =
     (case map_of e ''code'' of
        Some (JStr s) \<Rightarrow>
          if js_trim s = [] then spec_language_codes es else s # spec_language_codes es
      | _ \<Rightarrow> spec_language_codes es)"

section \<open>Reading an error of the HTTP helper\<close>

text \<open>The truth value of an optional string, and its text.\<close>

definition tstr :: "string option \<Rightarrow> bool" where
  "tstr s = (case s of Some t \<Rightarrow> t \<noteq> [] | None \<Rightarrow> False)"

definition str_of :: "string option \<Rightarrow> string" where
  "str_of s = (case s of Some t \<Rightarrow> t | None \<Rightarrow> [])"

definition tnum :: "int option \<Rightarrow> bool" where
  "tnum n = (case n of Some k \<Rightarrow> k \<noteq> 0 | None \<Rightarrow> False)"

text \<open>The optional chains \<^verbatim>\<open>error.cause?.error?.x\<close>, \<^verbatim>\<open>error.cause?.code\<close> and
  \<^verbatim>\<open>error.response?.body?.x\<close>.\<close>

definition cause_error_field :: "(cause_error \<Rightarrow> string option) \<Rightarrow> SonioxApiError \<Rightarrow> string option" where
  "cause_error_field f e =
     (case cause e of
        None \<Rightarrow> None
      | Some c \<Rightarrow> (case c_error c of None \<Rightarrow> None | Some ce \<Rightarrow> f ce))"

definition cause_code :: "SonioxApiError \<Rightarrow> string option" where
  "cause_code e = (case cause e of None \<Rightarrow> None | Some c \<Rightarrow> c_code c)"

definition body_field :: "(response_body \<Rightarrow> string option) \<Rightarrow> SonioxApiError \<Rightarrow> string option" where
  "body_field f e =
     (case response e of
        None \<Rightarrow> None
      | Some r \<Rightarrow> (case body r of None \<Rightarrow> None | Some b \<Rightarrow> f b))"

definition response_statusCode :: "SonioxApiError \<Rightarrow> int option" where
  "response_statusCode e = (case response e of None \<Rightarrow> None | Some r \<Rightarrow> statusCode r)"

text \<open>
  \<^verbatim>\<open>function getErrorHint(statusCode: number | undefined, errorCode: string | undefined): string\<close>
  (src/unnamed/part_001): the hint of the error code if the table has one, else the hint of
  the HTTP status if the table has one, else the empty string. The tables are object
  literals, so \<^verbatim>\<open>codeHints[errorCode]\<close> also finds the members that an object inherits
  from \<^verbatim>\<open>Object.prototype\<close>: at such a name the lookup gives a function (the prototype
  itself at \<^verbatim>\<open>__proto__\<close>), which is true, and the function returns it in place of a
  string. A status code is a number and names no inherited member.
\<close>

definition object_prototype :: "string list" where
  "object_prototype =
     [''constructor'', ''__defineGetter__'', ''__defineSetter__'', ''hasOwnProperty'',
      ''__lookupGetter__'', ''__lookupSetter__'', ''isPrototypeOf'', ''propertyIsEnumerable'',
      ''toString'', ''valueOf'', ''__proto__'', ''toLocaleString'']"

datatype hint = Hint string | Inherited string

definition codeHints :: "(string \<times> string) list" where
  "codeHints =
     [(''invalid_api_key'', ''Check that your API key is correct in the Soniox credentials.''),
      (''insufficient_credits'', ''Your Soniox account may need more credits. Visit dashboard.soniox.com.''),
      (''file_too_large'', ''The audio file exceeds the maximum size limit. Try a smaller file.''),
      (''unsupported_format'', ''This audio format is not supported. Supported formats include WAV, MP3, FLAC, and more.''),
      (''transcription_not_found'', ''The transcription ID does not exist or has been deleted.''),
      (''rate_limit_exceeded'', ''You have exceeded the API rate limit. Wait a moment and try again.'')]"

definition statusHints :: "(int \<times> string) list" where
  "statusHints =
     [(400, ''Check your request parameters. The API received invalid input.''),
      (401, ''Authentication failed. Verify your Soniox API key in the credentials.''),
      (403, ''Access denied. Your API key may not have permission for this operation.''),
      (404, ''Resource not found. The transcription ID may be invalid or deleted.''),
      (413, ''The audio file is too large. Try a smaller file or use a URL instead.''),
      (422, ''Invalid request data. Check that all required fields are filled correctly.''),
      (429, ''Rate limit exceeded. Wait a moment before retrying.''),
      (500, ''Soniox server error. Try again later or contact Soniox support.''),
      (502, ''Soniox service temporarily unavailable. Try again in a few moments.''),
      (503, ''Soniox service is under maintenance. Try again later.'')]"

definition getErrorHint :: "int option \<Rightarrow> string option \<Rightarrow> hint" where
  "getErrorHint status code =
     (let byCode = (if tstr code then map_of codeHints (str_of code) else None);
          byStatus = (case status of
                        Some n \<Rightarrow> if n \<noteq> 0 then map_of statusHints n else None
                      | None \<Rightarrow> None)
      in if tstr byCode then Hint (str_of byCode)
         else if tstr code \<and> str_of code \<in> set object_prototype then Inherited (str_of code)
         else if tstr byStatus then Hint (str_of byStatus)
         else Hint [])"

text \<open>
  \<^verbatim>\<open>function extractErrorDetails(error: SonioxApiError)\<close> (src/unnamed/part_001):
  \<^verbatim>\<open>statusCode = error.httpCode || error.response?.statusCode\<close>,
  \<^verbatim>\<open>errorCode = error.cause?.error?.code || error.cause?.code || error.response?.body?.code || undefined\<close>,
  and the message by the chain of \<^verbatim>\<open>if ... else if\<close>, each probe tested for truth.
\<close>

record error_details =
  ed_message :: string
  ed_statusCode :: "int option"
  ed_errorCode :: "string option"

definition extractErrorDetails :: "SonioxApiError \<Rightarrow> error_details" where
  "extractErrorDetails e =
     \<lparr>ed_message =
        (if tstr (cause_error_field ce_detail e) then str_of (cause_error_field ce_detail e)
         else if tstr (cause_error_field ce_message e) then str_of (cause_error_field ce_message e)
         else if tstr (body_field b_detail e) then str_of (body_field b_detail e)
         else if tstr (body_field b_message e) then str_of (body_field b_message e)
         else if tstr (body_field b_error e) then str_of (body_field b_error e)
         else if tstr (description e) then str_of (description e)
         else if tstr (message e) then str_of (message e)
         else []),
      ed_statusCode = (if tnum (httpCode e) then httpCode e else response_statusCode e),
      ed_errorCode =
        (if tstr (cause_error_field ce_code e) then cause_error_field ce_code e
         else if tstr (cause_code e) then cause_code e
         else if tstr (body_field b_code e) then body_field b_code e
         else None)\<rparr>"

text \<open>The chain inside the \<^verbatim>\<open>catch\<close> of \<^verbatim>\<open>sonioxApiRequest\<close> in
  src/nodes/Soniox/Soniox.node.ts: it stops at the top-level description.\<close>

definition detail_NodeTs :: "SonioxApiError \<Rightarrow> string" where
  "detail_NodeTs e =
     (if tstr (cause_error_field ce_detail e) then str_of (cause_error_field ce_detail e)
      else if tstr (cause_error_field ce_message e) then str_of (cause_error_field ce_message e)
      else if tstr (body_field b_detail e) then str_of (body_field b_detail e)
      else if tstr (body_field b_message e) then str_of (body_field b_message e)
      else if tstr (body_field b_error e) then str_of (body_field b_error e)
      else if tstr (description e) then str_of (description e)
      else [])"

section \<open>The two files of the node\<close>

text \<open>
  The repository holds the node twice: src/nodes/Soniox/Soniox.node.ts (\<open>NodeTs\<close>) and
  src/unnamed/part_001 (\<open>Part001\<close>). The helper functions above that both files hold are
  the same text in both. Where the files differ, the model takes the file as an argument.
  Only part_001 gives its errors a description.
\<close>

datatype variant = NodeTs | Part001

definition describe :: "variant \<Rightarrow> string \<Rightarrow> string option" where
  "describe v d = (case v of NodeTs \<Rightarrow> None | Part001 \<Rightarrow> Some d)"

section \<open>The world: clock, HTTP calls, objects\<close>

datatype http_method = GET | POST | DELETE

datatype payload = NoBody | JsonBody json | RawBody string

record request =
  req_method :: http_method
  req_url :: string
  req_body :: payload
  req_headers :: "(string \<times> string) list"
  req_json :: bool

text \<open>The state an execution changes: the wall clock in milliseconds (\<^verbatim>\<open>Date.now()\<close>),
  the HTTP calls issued so far, each with its outcome and the time of its answer, and
  the objects whose identity the node relies on.\<close>

record call =
  sent :: request
  outcome :: "SonioxApiError + json"
  answered :: int

record world =
  now :: int
  calls :: "call list"
  objs :: heap

text \<open>What the node does not decide: the outcome and the duration of the n-th HTTP call,
  whether the execution is cancelled while a sleep that starts at a given time is
  pending, what \<^verbatim>\<open>JSON.parse\<close> returns (\<open>Inl\<close> the message of its SyntaxError), the
  binary data of the input item, and the random suffix of a multipart boundary. A response that arrives
  as text or as a Buffer is the string of its text.\<close>

record binary_data =
  fileName :: "string option"
  fileExtension :: "string option"
  mimeType :: "string option"
  buffer :: string

record env =
  respond :: "nat \<Rightarrow> request \<Rightarrow> SonioxApiError + json"
  latency :: "nat \<Rightarrow> nat"
  cancelled :: "int \<Rightarrow> bool"
  json_parse :: "string \<Rightarrow> string + json"
  binary :: "string \<Rightarrow> string + binary_data"
  random_hex :: string

text \<open>\<^verbatim>\<open>this.helpers.httpRequestWithAuthentication.call(this, SONIOX_CREDENTIALS, options)\<close>:
  the call is recorded with its outcome and the clock moves by its duration.\<close>

definition httpRequestWithAuthentication :: "env \<Rightarrow> request \<Rightarrow> world \<Rightarrow> (SonioxApiError + json) \<times> world" where
  "httpRequestWithAuthentication en rq w =
     (let n = length (calls w); r = respond en n rq; t = now w + int (latency en n)
      in (r, w\<lparr>now := t, calls := calls w @ [\<lparr>sent = rq, outcome = r, answered = t\<rparr>]\<rparr>))"

text \<open>\<^verbatim>\<open>sleepWithAbort(ms, signal)\<close> of the host library: it rejects when the execution
  is cancelled, and resolves after \<open>ms\<close> milliseconds otherwise.\<close>

definition sleepWithAbort :: "env \<Rightarrow> int \<Rightarrow> world \<Rightarrow> (error + unit) \<times> world" where
  "sleepWithAbort en ms w =
     (if cancelled en (now w) then (Inl ExecutionCancelledError, w)
      else (Inr (), w\<lparr>now := now w + ms\<rparr>))"

text \<open>
  The error that \<^verbatim>\<open>sonioxApiRequest\<close> throws for an error of the HTTP helper.
  In src/nodes/Soniox/Soniox.node.ts:
  \<^verbatim>\<open>if (detail) { throw new NodeOperationError(this.getNode(), `Soniox API error: ${detail}`); }
  throw error;\<close>
  In src/unnamed/part_001:
  \<^verbatim>\<open>const { message, statusCode, errorCode } = extractErrorDetails(error as SonioxApiError);
  const hint = getErrorHint(statusCode, errorCode);
  let errorMessage = 'Soniox API error';
  if (message) { errorMessage = `Soniox API error: ${message}`; }
  else if (statusCode) { errorMessage = `Soniox API error (HTTP ${statusCode})`; }
  throw new NodeOperationError(this.getNode(), errorMessage, { description: hint || undefined });\<close>
\<close>

definition apiError :: "variant \<Rightarrow> SonioxApiError \<Rightarrow> error" where
  "apiError v e =
     (case v of
        NodeTs \<Rightarrow>
          if detail_NodeTs e \<noteq> [] then NodeOperationError (''Soniox API error: '' @ detail_NodeTs e) None
          else HttpError e
      | Part001 \<Rightarrow>
          (let d = extractErrorDetails e;
               hint = getErrorHint (ed_statusCode d) (ed_errorCode d);
               errorMessage =
                 (if ed_message d \<noteq> [] then ''Soniox API error: '' @ ed_message d
                  else if tnum (ed_statusCode d) then
                    ''Soniox API error (HTTP '' @ show_int (case ed_statusCode d of Some n \<Rightarrow> n | None \<Rightarrow> 0) @ '')''
                  else ''Soniox API error'')
           in case hint of
                Hint h \<Rightarrow> NodeOperationError errorMessage (if h \<noteq> [] then Some h else None)
              | Inherited k \<Rightarrow> NodeOperationErrorInherited errorMessage k))"

text \<open>\<^verbatim>\<open>async function sonioxApiRequest(this, options: { method, url, body?, headers? })\<close>:
  one authenticated call with \<^verbatim>\<open>json: true\<close>; a failure is thrown as above.\<close>

definition sonioxApiRequest :: "variant \<Rightarrow> env \<Rightarrow> http_method \<Rightarrow> string \<Rightarrow> payload \<Rightarrow> world \<Rightarrow> (error + json) \<times> world" where
  "sonioxApiRequest v en m u b w =
     (case httpRequestWithAuthentication en
             \<lparr>req_method = m, req_url = u, req_body = b, req_headers = [], req_json = True\<rparr> w of
        (Inl e, w') \<Rightarrow> (Inl (apiError v e), w')
      | (Inr r, w') \<Rightarrow> (Inr r, w'))"

section \<open>Polling for completion\<close>

record PollOptions =
  transcriptionId :: json
  pollIntervalSec :: int
  maxWaitSec :: int

record TranscriptResult =
  status :: json
  transcript :: json

text \<open>
  One pass through the body of \<^verbatim>\<open>while (true)\<close> in \<^verbatim>\<open>pollForCompletion\<close>: the status
  request, then the tests in the order of the source,
  \<^verbatim>\<open>if (status === STATUS_COMPLETED) { break; }
  if (status === STATUS_ERROR) { ... throw new NodeOperationError(...) }
  if (Date.now() > timeoutAt) { ... throw new NodeOperationError(...) }
  await sleepWithAbort(pollDelay, this.getExecutionCancelSignal?.());\<close>
  The pass leaves the loop with the status response (\<open>Break\<close>), throws, or goes round
  again.
\<close>

datatype poll_step = Break json world | Throw error world | Again world

definition pollIteration :: "variant \<Rightarrow> env \<Rightarrow> PollOptions \<Rightarrow> int \<Rightarrow> world \<Rightarrow> poll_step" where
  "pollIteration v en options timeoutAt w =
     (case sonioxApiRequest v en GET
             (''/v1/transcriptions/'' @ js_toString (transcriptionId options)) NoBody w of
        (Inl e, w1) \<Rightarrow> Throw e w1
      | (Inr statusResponse, w1) \<Rightarrow>
          (let status = get_opt statusResponse ''status'' in
           if status = JStr ''completed'' then Break statusResponse w1
           else if status = JStr ''error'' then
             Throw (NodeOperationError
                      (''Transcription failed with status \"error\"'' @
                         (if truthy (get_opt statusResponse ''error_message'')
                          then '': '' @ js_toString (get_opt statusResponse ''error_message'')
                          else []))
                      (describe v ''The transcription could not be completed. Check that the audio file is valid and in a supported format.'')) w1
           else if now w1 > timeoutAt then
             Throw (NodeOperationError
                      (''Polling timed out after '' @ show_int (maxWaitSec options) @ '' seconds'' @
                         (if truthy status then '' (last status: '' @ js_toString status @ '')'' else []))
                      (describe v ''The transcription is taking longer than expected. Try increasing the \"Max Wait\" setting, or disable \"Wait for Completion\" and fetch results later.'')) w1
           else
             (case sleepWithAbort en (max 1 (pollIntervalSec options) * 1000) w1 of
                (Inl e, w2) \<Rightarrow> Throw e w2
              | (Inr u, w2) \<Rightarrow> Again w2)))"

function pollLoop :: "variant \<Rightarrow> env \<Rightarrow> PollOptions \<Rightarrow> int \<Rightarrow> world \<Rightarrow> (error + json) \<times> world" where
  "pollLoop v en options timeoutAt w =
     (case pollIteration v en options timeoutAt w of
        Break statusResponse w1 \<Rightarrow> (Inr statusResponse, w1)
      | Throw e w1 \<Rightarrow> (Inl e, w1)
      | Again w2 \<Rightarrow> pollLoop v en options timeoutAt w2)"
  by pat_completeness auto
termination
proof (relation "measure (\<lambda>(v, en, options, timeoutAt, w). nat (timeoutAt + 1 - now w))")
  show "wf (measure (\<lambda>(v, en, options, timeoutAt, w). nat (timeoutAt + 1 - now w)))"
    by simp
next
  fix v en options timeoutAt w w2
  assume step: "pollIteration v en options timeoutAt w = Again w2"
  obtain r w1 where call:
    "sonioxApiRequest v en GET (''/v1/transcriptions/'' @ js_toString (transcriptionId options)) NoBody w = (r, w1)"
    by (cases "sonioxApiRequest v en GET (''/v1/transcriptions/'' @ js_toString (transcriptionId options)) NoBody w")
  have later: "now w \<le> now w1"
    using call
    by (auto simp: sonioxApiRequest_def httpRequestWithAuthentication_def Let_def split: sum.splits)
  from step call have "now w1 \<le> timeoutAt" and "now w2 = now w1 + max 1 (pollIntervalSec options) * 1000"
    by (auto simp: pollIteration_def sleepWithAbort_def Let_def split: sum.splits if_splits)
  with later have "now w \<le> timeoutAt" and "now w < now w2"
    by auto
  then show "((v, en, options, timeoutAt, w2), (v, en, options, timeoutAt, w)) \<in>
      measure (\<lambda>(v, en, options, timeoutAt, w). nat (timeoutAt + 1 - now w))"
    by simp
qed

declare pollLoop.simps [simp del]

text \<open>
  \<^verbatim>\<open>async function pollForCompletion(this, options: PollOptions): Promise<TranscriptResult>\<close>:
  \<^verbatim>\<open>const timeoutAt = Date.now() + Math.max(1, maxWaitSec) * 1000;\<close> once, the loop, and
  after a \<^verbatim>\<open>break\<close> the request for the transcript.
\<close>

definition pollForCompletion :: "variant \<Rightarrow> env \<Rightarrow> PollOptions \<Rightarrow> world \<Rightarrow> (error + TranscriptResult) \<times> world" where
  "pollForCompletion v en options w =
     (let timeoutAt = now w + max 1 (maxWaitSec options) * 1000 in
      case pollLoop v en options timeoutAt w of
        (Inl e, w1) \<Rightarrow> (Inl e, w1)
      | (Inr statusResponse, w1) \<Rightarrow>
          (case sonioxApiRequest v en GET
                  (''/v1/transcriptions/'' @ js_toString (transcriptionId options) @ ''/transcript'') NoBody w1 of
             (Inl e, w2) \<Rightarrow> (Inl e, w2)
           | (Inr t, w2) \<Rightarrow> (Inr \<lparr>status = statusResponse, transcript = t\<rparr>, w2)))"

section \<open>Uploading a binary file\<close>

definition hex_char :: "nat \<Rightarrow> char" where
  "hex_char d = ''0123456789abcdef'' ! d"

function show_hex :: "nat \<Rightarrow> string" where
  "show_hex n = (if n < 16 then [hex_char n] else show_hex (n div 16) @ [hex_char (n mod 16)])"
  by pat_completeness auto
termination
  by (relation "measure (\<lambda>n. n)") auto

text \<open>
  \<^verbatim>\<open>function createMultipartPayload(fileBuffer: Buffer, fileName: string, contentType: string)\<close>:
  the boundary is \<^verbatim>\<open>----n8nFormBoundary\<close>, the clock in hexadecimal and a random
  hexadecimal suffix; carriage returns, line feeds and double quotes are removed from
  the file name.
\<close>

definition crlf :: string where
  "crlf = [CHR 0x0D, CHR 0x0A]"

definition createMultipartPayload :: "env \<Rightarrow> world \<Rightarrow> string \<Rightarrow> string \<Rightarrow> string \<Rightarrow> string \<times> (string \<times> string) list" where
  "createMultipartPayload en w fileBuffer name contentType =
     (let boundary = ''----n8nFormBoundary'' @
                       (if now w < 0 then CHR ''-'' # show_hex (nat (- now w)) else show_hex (nat (now w))) @
                       random_hex en;
          safeFileName = filter (\<lambda>c. c \<notin> set [CHR 0x0D, CHR 0x0A, CHR 0x22]) name;
          header = join crlf
                     [''--'' @ boundary,
                      ''Content-Disposition: form-data; name=\"file\"; filename=\"'' @ safeFileName @ ''\"'',
                      ''Content-Type: '' @ contentType,
                      [],
                      []];
          footer = crlf @ ''--'' @ boundary @ ''--'' @ crlf
      in (header @ fileBuffer @ footer,
          [(''Content-Type'', ''multipart/form-data; boundary='' @ boundary)]))"

text \<open>\<^verbatim>\<open>typeof v === 'object'\<close>.\<close>

fun typeof_object :: "json \<Rightarrow> bool" where
  "typeof_object JNull = True"
| "typeof_object (JArr xs) = True"
| "typeof_object (JObj kvs) = True"
| "typeof_object v = False"

text \<open>
  \<^verbatim>\<open>async function uploadFile(this, itemIndex: number, binaryPropertyName: string)\<close>: the
  upload goes to the HTTP helper directly, with \<^verbatim>\<open>json: false\<close> and outside any
  \<^verbatim>\<open>try\<close>; a response that is not an object is parsed as JSON text, and the function
  returns only an \<^verbatim>\<open>id\<close> that is true.
\<close>

definition uploadFile :: "variant \<Rightarrow> env \<Rightarrow> string \<Rightarrow> world \<Rightarrow> (error + json) \<times> world" where
  "uploadFile v en binaryPropertyName w =
     (case binary en binaryPropertyName of
        Inl msg \<Rightarrow> (Inl (HostError msg), w)
      | Inr binaryData \<Rightarrow>
          (let name =
                 (if tstr (fileName binaryData) then str_of (fileName binaryData)
                  else if tstr (fileExtension binaryData) then ''audio.'' @ str_of (fileExtension binaryData)
                  else ''audio'');
               contentType =
                 (if tstr (mimeType binaryData) then str_of (mimeType binaryData)
                  else ''application/octet-stream'');
               multipart = createMultipartPayload en w (buffer binaryData) name contentType
           in case httpRequestWithAuthentication en
                     \<lparr>req_method = POST, req_url = ''/v1/files'', req_body = RawBody (fst multipart),
                        req_headers = snd multipart, req_json = False\<rparr> w of
                (Inl e, w1) \<Rightarrow> (Inl (HttpError e), w1)
              | (Inr resp, w1) \<Rightarrow>
                  (let uploadResponse =
                         (if truthy resp \<and> typeof_object resp then resp
                          else if truthy resp then
                            (case json_parse en (js_toString resp) of Inl m \<Rightarrow> JNull | Inr j \<Rightarrow> j)
                          else JNull)
                   in if \<not> truthy (get_opt uploadResponse ''id'') then
                        (Inl (NodeOperationError
                                (case v of NodeTs \<Rightarrow> ''File upload did not return a file id''
                                         | Part001 \<Rightarrow> ''File upload did not return a file ID'')
                                (describe v ''The file upload response was unexpected. Ensure the file is a valid audio file and try again.'')), w1)
                      else (Inr (get_opt uploadResponse ''id''), w1))))"

section \<open>Structured context\<close>

text \<open>
  src/nodes/Soniox/Soniox.node.ts:
  \<^verbatim>\<open>function parseJsonValue(value: unknown, fallback: IDataObject) {
    if (value && typeof value === 'string') {
      try { return JSON.parse(value) as IDataObject; } catch { return fallback; }
    }
    if (value && typeof value === 'object') { return value as IDataObject; }
    return fallback;
  }\<close>
\<close>

definition parseJsonValue :: "env \<Rightarrow> json \<Rightarrow> json \<Rightarrow> json" where
  "parseJsonValue en v fallback =
     (case v of
        JStr s \<Rightarrow>
          if s \<noteq> [] then (case json_parse en s of Inl m \<Rightarrow> fallback | Inr j \<Rightarrow> j)
          else fallback
      | _ \<Rightarrow> if truthy v \<and> typeof_object v then v else fallback)"

text \<open>
  src/unnamed/part_001:
  \<^verbatim>\<open>function parseStructuredContext(value: unknown): IDataObject | undefined {
    if (!value) return undefined;
    if (typeof value === 'object' && !Array.isArray(value)) {
      return Object.keys(value).length > 0 ? (value as IDataObject) : undefined;
    }
    if (typeof value === 'string') {
      const trimmed = value.trim();
      if (!trimmed) return undefined;
      const parsed = JSON.parse(trimmed);
      if (typeof parsed !== 'object' || parsed === null || Array.isArray(parsed)) {
        throw new ApplicationError('Context must be a JSON object, not an array or primitive');
      }
      return Object.keys(parsed).length > 0 ? (parsed as IDataObject) : undefined;
    }
    return undefined;
  }\<close>
\<close>

definition parseStructuredContext :: "env \<Rightarrow> json \<Rightarrow> error + json" where
  "parseStructuredContext en v =
     (if \<not> truthy v then Inr JUndefined
      else case v of
        JObj kvs \<Rightarrow> Inr (if kvs \<noteq> [] then v else JUndefined)
      | JStr s \<Rightarrow>
          (let trimmed = js_trim s in
           if trimmed = [] then Inr JUndefined
           else case json_parse en trimmed of
             Inl m \<Rightarrow> Inl (SyntaxError m)
           | Inr (JObj pkvs) \<Rightarrow> Inr (if pkvs \<noteq> [] then JObj pkvs else JUndefined)
           | Inr parsed \<Rightarrow> Inl (ApplicationError ''Context must be a JSON object, not an array or primitive''))
      | _ \<Rightarrow> Inr JUndefined)"

text \<open>The message of a caught error, \<^verbatim>\<open>e instanceof Error ? e.message : 'Invalid JSON'\<close>,
  for the two errors that \<^verbatim>\<open>parseStructuredContext\<close> throws.\<close>

fun error_message :: "error \<Rightarrow> string" where
  "error_message (ApplicationError m) = m"
| "error_message (SyntaxError m) = m"
| "error_message (NodeOperationError m d) = m"
| "error_message (NodeOperationErrorInherited m k) = m"
| "error_message (TypeError m) = m"
| "error_message (HostError m) = m"
| "error_message (HttpError e) = str_of (message e)"
| "error_message ExecutionCancelledError = []"

section \<open>Deleting remote resources\<close>

text \<open>
  src/unnamed/part_001:
  \<^verbatim>\<open>async function tryDeleteResource(this, url: string, description: string): Promise<string | null> {
    try {
      await this.helpers.httpRequestWithAuthentication.call(this, SONIOX_CREDENTIALS,
        { method: 'DELETE', url, json: true });
      return null;
    } catch (error: unknown) {
      const { message } = extractErrorDetails(error as SonioxApiError);
      return `Failed to delete ${description}: ${message || 'Unknown error'}`;
    }
  }\<close>
\<close>

definition tryDeleteResource :: "env \<Rightarrow> string \<Rightarrow> string \<Rightarrow> world \<Rightarrow> string option \<times> world" where
  "tryDeleteResource en u what w =
     (case httpRequestWithAuthentication en
             \<lparr>req_method = DELETE, req_url = u, req_body = NoBody, req_headers = [], req_json = True\<rparr> w of
        (Inr r, w1) \<Rightarrow> (None, w1)
      | (Inl e, w1) \<Rightarrow>
          (Some (''Failed to delete '' @ what @ '': '' @
                   (if ed_message (extractErrorDetails e) \<noteq> [] then ed_message (extractErrorDetails e)
                    else ''Unknown error'')), w1))"

record DeleteResult =
  deleted_transcription :: "json option"
  deleted_file :: "json option"
  warnings :: "string list"

text \<open>
  \<^verbatim>\<open>async function deleteResources(this, transcriptionId?: string, fileId?: string): Promise<DeleteResult>\<close>:
  the transcription first, then the file, each only when its id is true; a warning
  that is returned is pushed, otherwise the id is recorded as deleted.
\<close>

definition deleteResources :: "env \<Rightarrow> json \<Rightarrow> json \<Rightarrow> world \<Rightarrow> DeleteResult \<times> world" where
  "deleteResources en tid fid w =
     (let r0 = \<lparr>deleted_transcription = None, deleted_file = None, warnings = []\<rparr>;
          (r1, w1) =
            (if truthy tid then
               (case tryDeleteResource en (''/v1/transcriptions/'' @ js_toString tid)
                       (''transcription '' @ js_toString tid) w of
                  (Some warning, w') \<Rightarrow> (r0\<lparr>warnings := warnings r0 @ [warning]\<rparr>, w')
                | (None, w') \<Rightarrow> (r0\<lparr>deleted_transcription := Some tid\<rparr>, w'))
             else (r0, w));
          (r2, w2) =
            (if truthy fid then
               (case tryDeleteResource en (''/v1/files/'' @ js_toString fid)
                       (''file '' @ js_toString fid) w1 of
                  (Some warning, w') \<Rightarrow> (r1\<lparr>warnings := warnings r1 @ [warning]\<rparr>, w')
                | (None, w') \<Rightarrow> (r1\<lparr>deleted_file := Some fid\<rparr>, w'))
             else (r1, w1))
      in (r2, w2))"

section \<open>The create operation\<close>

text \<open>The parameters of the node that the create operation reads, as the host resolved
  them for the item (\<^verbatim>\<open>this.getNodeParameter(name, itemIndex, default)\<close>).\<close>

record params =
  p_audioSource :: string
  p_model :: string
  p_binaryPropertyName :: string
  p_audioUrl :: string
  p_fileId :: string
  p_languageHints :: json
  p_languageHintsStrict :: bool
  p_enableLanguageIdentification :: bool
  p_enableSpeakerDiarization :: bool
  p_contextMode :: string
  p_contextText :: string
  p_contextJson :: json
  p_clientReferenceId :: string
  p_webhookUrl :: string
  p_webhookAuthHeaderName :: string
  p_webhookAuthHeaderValue :: string
  p_translationType :: string
  p_targetLanguage :: string
  p_languageA :: string
  p_languageB :: string
  p_waitForCompletion :: bool
  p_pollIntervalSec :: int
  p_maxWaitSec :: int
  p_outputMode :: string
  p_autoDelete :: bool

text \<open>
  The audio source: \<^verbatim>\<open>let audioUrl: string | undefined; let fileId: string | undefined;\<close>
  and the chain \<^verbatim>\<open>if (audioSource === 'binary') ... else if (audioSource === 'url') ...
  else if (audioSource === 'fileId') ... else throw\<close>. The result is the pair of the two
  variables.
\<close>

definition resolveAudioSource :: "variant \<Rightarrow> env \<Rightarrow> params \<Rightarrow> world \<Rightarrow> (error + json \<times> json) \<times> world" where
  "resolveAudioSource v en p w =
     (if p_audioSource p = ''binary'' then
        (case uploadFile v en (p_binaryPropertyName p) w of
           (Inl e, w1) \<Rightarrow> (Inl e, w1)
         | (Inr uploaded, w1) \<Rightarrow> (Inr (JUndefined, uploaded), w1))
      else if p_audioSource p = ''url'' then
        (if \<not> isNonEmptyString (JStr (p_audioUrl p)) then
           (Inl (NodeOperationError ''Audio URL is required''
                   (describe v ''Provide a publicly accessible URL to your audio file (e.g., https://example.com/audio.wav).'')), w)
         else (Inr (JStr (p_audioUrl p), JUndefined), w))
      else if p_audioSource p = ''fileId'' then
        (if \<not> isNonEmptyString (JStr (p_fileId p)) then
           (Inl (NodeOperationError ''File ID is required''
                   (describe v ''Provide the ID of a file previously uploaded to Soniox.'')), w)
         else (Inr (JUndefined, JStr (p_fileId p)), w))
      else
        (Inl (NodeOperationError (''Unsupported audio source: '' @ p_audioSource p)
                (describe v ''Select a valid audio source: Binary File, Audio URL, or File ID.'')), w))"

text \<open>
  The context: \<^verbatim>\<open>let context: IDataObject | string | undefined;\<close> set in text mode from
  a non-empty text, in structured mode by \<^verbatim>\<open>parseJsonValue(contextJson, {})\<close>
  (Soniox.node.ts) or by \<^verbatim>\<open>parseStructuredContext(contextJson)\<close> inside a \<^verbatim>\<open>try\<close> whose
  \<^verbatim>\<open>catch\<close> throws \<^verbatim>\<open>Invalid context: ${message}\<close> (part_001).
\<close>

definition buildContext :: "variant \<Rightarrow> env \<Rightarrow> params \<Rightarrow> error + json" where
  "buildContext v en p =
     (if p_contextMode p = ''text'' then
        Inr (if isNonEmptyString (JStr (p_contextText p)) then JStr (p_contextText p) else JUndefined)
      else if p_contextMode p = ''structured'' then
        (case v of
           NodeTs \<Rightarrow> Inr (parseJsonValue en (p_contextJson p) (JObj []))
         | Part001 \<Rightarrow>
             (case parseStructuredContext en (p_contextJson p) of
                Inl e \<Rightarrow>
                  Inl (NodeOperationError (''Invalid context: '' @ error_message e)
                         (Some ''Check that your context JSON is valid. The API expects an object with optional fields: general, text, terms, translation_terms.''))
              | Inr c \<Rightarrow> Inr c))
      else Inr JUndefined)"

text \<open>One optional property of the body: present when the test holds.\<close>

definition field_if :: "bool \<Rightarrow> string \<Rightarrow> json \<Rightarrow> (string \<times> json) list" where
  "field_if c k x = (if c then [(k, x)] else [])"

text \<open>
  \<^verbatim>\<open>if (typeof context === 'string') { if (isNonEmptyString(context)) { body.context = context; } }
  else if (context && typeof context === 'object' && Object.keys(context).length > 0) {
    body.context = context;
  }\<close>
\<close>

definition context_field :: "json \<Rightarrow> (string \<times> json) list" where
  "context_field c =
     (case c of
        JStr s \<Rightarrow> field_if (isNonEmptyString c) ''context'' c
      | JObj kvs \<Rightarrow> field_if (kvs \<noteq> []) ''context'' c
      | JArr xs \<Rightarrow> field_if (xs \<noteq> []) ''context'' c
      | _ \<Rightarrow> [])"

text \<open>The body before the translation: \<^verbatim>\<open>const body: IDataObject = { model };\<close> and the
  conditional assignments in the order of the source. The body is a new object and
  every key is assigned at most once, so the assignments append.\<close>

definition assembleBody :: "params \<Rightarrow> json \<Rightarrow> json \<Rightarrow> json list \<Rightarrow> json \<Rightarrow> (string \<times> json) list" where
  "assembleBody p audioUrl fileId languageHints ctx =
     [(''model'', JStr (p_model p))] @
     field_if (truthy audioUrl) ''audio_url'' audioUrl @
     field_if (truthy fileId) ''file_id'' fileId @
     field_if (languageHints \<noteq> []) ''language_hints'' (JArr languageHints) @
     field_if (p_languageHintsStrict p) ''language_hints_strict'' (JBool True) @
     field_if (p_enableLanguageIdentification p) ''enable_language_identification'' (JBool True) @
     field_if (p_enableSpeakerDiarization p) ''enable_speaker_diarization'' (JBool True) @
     context_field ctx @
     field_if (isNonEmptyString (JStr (p_clientReferenceId p))) ''client_reference_id'' (JStr (p_clientReferenceId p)) @
     field_if (isNonEmptyString (JStr (p_webhookUrl p))) ''webhook_url'' (JStr (p_webhookUrl p)) @
     field_if (isNonEmptyString (JStr (p_webhookAuthHeaderName p))) ''webhook_auth_header_name'' (JStr (p_webhookAuthHeaderName p)) @
     field_if (isNonEmptyString (JStr (p_webhookAuthHeaderValue p))) ''webhook_auth_header_value'' (JStr (p_webhookAuthHeaderValue p))"

text \<open>The translation property, or the error of its validation.\<close>

definition buildTranslation :: "variant \<Rightarrow> params \<Rightarrow> error + (string \<times> json) list" where
  "buildTranslation v p =
     (if p_translationType p = ''one_way'' then
        (if \<not> isNonEmptyString (JStr (p_targetLanguage p)) then
           Inl (NodeOperationError ''Target language is required for one-way translation''
                  (describe v ''Specify the language code to translate to (e.g., \"en\", \"es\", \"fr\").''))
         else Inr [(''translation'',
                    JObj [(''type'', JStr ''one_way''), (''target_language'', JStr (p_targetLanguage p))])])
      else if p_translationType p = ''two_way'' then
        (if \<not> isNonEmptyString (JStr (p_languageA p)) \<or> \<not> isNonEmptyString (JStr (p_languageB p)) then
           Inl (NodeOperationError ''Language A and Language B are required for two-way translation''
                  (describe v ''Specify both language codes for bidirectional translation (e.g., \"en\" and \"es\").''))
         else Inr [(''translation'',
                    JObj [(''type'', JStr ''two_way''), (''language_a'', JStr (p_languageA p)),
                          (''language_b'', JStr (p_languageB p))])])
      else Inr [])"

text \<open>
  From the two variables of the audio source to the create call: the guard
  \<^verbatim>\<open>if ((audioUrl && fileId) || (!audioUrl && !fileId)) { throw new NodeOperationError(this.getNode(),
    'Provide exactly one audio source (audio URL or file ID)', ...); }\<close>
  the language hints, the context, the body, the translation, and
  \<^verbatim>\<open>sonioxApiRequest.call(this, { method: 'POST', url: '/v1/transcriptions', body })\<close>.
\<close>

definition createRequest :: "variant \<Rightarrow> env \<Rightarrow> params \<Rightarrow> json \<Rightarrow> json \<Rightarrow> world \<Rightarrow> (error + json) \<times> world" where
  "createRequest v en p audioUrl fileId w =
     (if (truthy audioUrl \<and> truthy fileId) \<or> (\<not> truthy audioUrl \<and> \<not> truthy fileId) then
        (Inl (NodeOperationError ''Provide exactly one audio source (audio URL or file ID)''
                (describe v ''Select one audio source type and provide the required value.'')), w)
      else case normalizeLanguageHints (p_languageHints p) of
        Inl e \<Rightarrow> (Inl e, w)
      | Inr languageHints \<Rightarrow>
          (case buildContext v en p of
             Inl e \<Rightarrow> (Inl e, w)
           | Inr ctx \<Rightarrow>
               (case buildTranslation v p of
                  Inl e \<Rightarrow> (Inl e, w)
                | Inr translation \<Rightarrow>
                    sonioxApiRequest v en POST ''/v1/transcriptions''
                      (JsonBody (JObj (assembleBody p audioUrl fileId languageHints ctx @ translation))) w)))"

text \<open>\<^verbatim>\<open>v.k\<close>: a TypeError on \<^verbatim>\<open>null\<close> and \<^verbatim>\<open>undefined\<close>.\<close>

fun get_member :: "json \<Rightarrow> string \<Rightarrow> error + json" where
  "get_member JNull k = Inl (TypeError ''Cannot read properties of null'')"
| "get_member JUndefined k = Inl (TypeError ''Cannot read properties of undefined'')"
| "get_member v k = Inr (get_opt v k)"

text \<open>\<^verbatim>\<open>o.k = x\<close> on the object at an address, in place. The module is strict code: the
  assignment throws a TypeError on \<^verbatim>\<open>null\<close>, \<^verbatim>\<open>undefined\<close> and on a primitive. An array
  takes the property beside its elements, where the JSON tree does not show it.\<close>

definition set_property :: "addr \<Rightarrow> string \<Rightarrow> json \<Rightarrow> heap \<Rightarrow> error + heap" where
  "set_property a k x h =
     (case deref h a of
        JObj kvs \<Rightarrow> Inr (h[a := JObj (AList.update k x kvs)])
      | JArr xs \<Rightarrow> Inr h
      | _ \<Rightarrow> Inl (TypeError ''Cannot create property''))"

text \<open>\<^verbatim>\<open>redactWebhookAuthHeaderValue(response)\<close> on an object that a request returned: the
  object enters the heap and the function runs on its address.\<close>

definition redacted :: "json \<Rightarrow> world \<Rightarrow> addr \<times> world" where
  "redacted j w =
     (let (a, h1) = alloc j (objs w);
          (r, h2) = redactWebhookAuthHeaderValue a h1
      in (r, w\<lparr>objs := h2\<rparr>))"

text \<open>
  \<^verbatim>\<open>const output = outputMode === 'textOnly'
      ? { text: result.transcript?.text ?? '' }
      : redactWebhookAuthHeaderValue(result.transcript);\<close>
\<close>

definition makeOutput :: "params \<Rightarrow> TranscriptResult \<Rightarrow> world \<Rightarrow> addr \<times> world" where
  "makeOutput p result w =
     (if p_outputMode p = ''textOnly'' then
        (let t = get_opt (transcript result) ''text'';
             (a, h1) = alloc (JObj [(''text'', if t = JNull \<or> t = JUndefined then JStr [] else t)]) (objs w)
         in (a, w\<lparr>objs := h1\<rparr>))
      else redacted (transcript result) w)"

text \<open>
  After the create call. Without waiting, the redacted response is the output. With
  waiting, \<^verbatim>\<open>const transcriptionId = response.id as string;\<close> must be true. Then
  Soniox.node.ts polls and emits the output; part_001 keeps the error of the poll,
  \<^verbatim>\<open>try { result = await pollForCompletion.call(this, {...}); } catch (error) { pollError = error as Error; }
  let deleteWarnings: string[] = [];
  if (autoDelete) {
    const fileIdToDelete = audioSource === 'binary' ? fileId : undefined;
    const deleteResult = await deleteResources.call(this, transcriptionId, fileIdToDelete);
    deleteWarnings = deleteResult.warnings;
  }
  if (pollError) { throw pollError; }
  const output = ...;
  const jsonOutput: IDataObject = output as IDataObject;
  if (deleteWarnings.length > 0) { jsonOutput._deleteWarnings = deleteWarnings; }\<close>
  The result is the address of the object that is pushed as the item's \<^verbatim>\<open>json\<close>.
\<close>

definition finishCreate :: "variant \<Rightarrow> env \<Rightarrow> params \<Rightarrow> json \<Rightarrow> json \<Rightarrow> world \<Rightarrow> (error + addr) \<times> world" where
  "finishCreate v en p fileId resp w =
     (if \<not> p_waitForCompletion p then
        (let (r, w1) = redacted resp w in (Inr r, w1))
      else case get_member resp ''id'' of
        Inl e \<Rightarrow> (Inl e, w)
      | Inr tid \<Rightarrow>
          if \<not> truthy tid then
            (Inl (NodeOperationError ''Transcription creation did not return an ID''
                    (describe v ''The Soniox API response was unexpected. Please try again or contact Soniox support.'')), w)
          else
            (let options = \<lparr>transcriptionId = tid, pollIntervalSec = p_pollIntervalSec p,
                              maxWaitSec = p_maxWaitSec p\<rparr>
             in case v of
               NodeTs \<Rightarrow>
                 (case pollForCompletion v en options w of
                    (Inl e, w1) \<Rightarrow> (Inl e, w1)
                  | (Inr result, w1) \<Rightarrow> (let (r, w2) = makeOutput p result w1 in (Inr r, w2)))
             | Part001 \<Rightarrow>
                 (let (polled, w1) = pollForCompletion v en options w;
                      (deleteWarnings, w2) =
                        (if p_autoDelete p then
                           (let fileIdToDelete = (if p_audioSource p = ''binary'' then fileId else JUndefined);
                                (deleteResult, w') = deleteResources en tid fileIdToDelete w1
                            in (warnings deleteResult, w'))
                         else ([], w1))
                  in case polled of
                    Inl pollError \<Rightarrow> (Inl pollError, w2)
                  | Inr result \<Rightarrow>
                      (let (r, w3) = makeOutput p result w2 in
                       if deleteWarnings \<noteq> [] then
                         (case set_property r ''_deleteWarnings'' (JArr (map JStr deleteWarnings)) (objs w3) of
                            Inl e \<Rightarrow> (Inl e, w3)
                          | Inr h \<Rightarrow> (Inr r, w3\<lparr>objs := h\<rparr>))
                       else (Inr r, w3)))))"

text \<open>
  The branch \<^verbatim>\<open>if (operation === 'create')\<close> of \<^verbatim>\<open>execute\<close> for one item:
  \<^verbatim>\<open>if (!isNonEmptyString(model)) { throw new NodeOperationError(this.getNode(), 'Model is required', ...); }\<close>
  then the audio source, the create call and what follows it.
\<close>

definition create :: "variant \<Rightarrow> env \<Rightarrow> params \<Rightarrow> world \<Rightarrow> (error + addr) \<times> world" where
  "create v en p w =
     (if \<not> isNonEmptyString (JStr (p_model p)) then
        (Inl (NodeOperationError ''Model is required''
                (describe v ''Specify a Soniox model ID (e.g., \"stt-async-v3\"). Check Soniox documentation for available models.'')), w)
      else case resolveAudioSource v en p w of
        (Inl e, w1) \<Rightarrow> (Inl e, w1)
      | (Inr (audioUrl, fileId), w1) \<Rightarrow>
          (case createRequest v en p audioUrl fileId w1 of
             (Inl e, w2) \<Rightarrow> (Inl e, w2)
           | (Inr resp, w2) \<Rightarrow> finishCreate v en p fileId resp w2))"




section \<open>Vocabulary of the properties\<close>

text \<open>A value mentions a key when an object at any depth inside it has the key; an
  object has a nested secret when the value of one of its properties mentions
  \<^verbatim>\<open>webhook_auth_header_value\<close>.\<close>

fun mentions :: "string \<Rightarrow> json \<Rightarrow> bool" where
  "mentions K (JObj kvs) = (\<exists>kv \<in> set kvs. fst kv = K \<or> mentions K (snd kv))"
| "mentions K (JArr xs) = (\<exists>x \<in> set xs. mentions K x)"
| "mentions K v = False"

definition nested_secret :: "(string \<times> json) list \<Rightarrow> bool" where
  "nested_secret kvs = (\<exists>kv \<in> set kvs. mentions ''webhook_auth_header_value'' (snd kv))"

text \<open>The object that \<^verbatim>\<open>redactWebhookAuthHeaderValue\<close> hands to the output for a response.\<close>

definition emitted :: "json \<Rightarrow> world \<Rightarrow> json" where
  "emitted j w = deref (objs (snd (redacted j w))) (fst (redacted j w))"

text \<open>The status request of the poll loop, the terminal statuses, and the answers that
  carry a status other than the terminal ones.\<close>

definition status_request :: "PollOptions \<Rightarrow> request" where
  "status_request options =
     \<lparr>req_method = GET, req_url = ''/v1/transcriptions/'' @ js_toString (transcriptionId options),
        req_body = NoBody, req_headers = [], req_json = True\<rparr>"

definition transcript_request :: "PollOptions \<Rightarrow> request" where
  "transcript_request options =
     \<lparr>req_method = GET,
        req_url = ''/v1/transcriptions/'' @ js_toString (transcriptionId options) @ ''/transcript'',
        req_body = NoBody, req_headers = [], req_json = True\<rparr>"

definition terminal :: "json \<Rightarrow> bool" where
  "terminal r = (get_opt r ''status'' = JStr ''completed'' \<or> get_opt r ''status'' = JStr ''error'')"

definition nonterminal_answer :: "call \<Rightarrow> bool" where
  "nonterminal_answer c = (case outcome c of Inr r \<Rightarrow> \<not> terminal r | Inl e \<Rightarrow> False)"

text \<open>The calls that an execution added to the log.\<close>

definition new_calls :: "world \<Rightarrow> world \<Rightarrow> call list" where
  "new_calls w w' = drop (length (calls w)) (calls w')"

text \<open>The message of the timeout, from the configured wait and the last status response: the
  status is named when it is true.\<close>

definition timeout_message :: "int \<Rightarrow> json \<Rightarrow> string" where
  "timeout_message seconds r =
     ''Polling timed out after '' @ show_int seconds @ '' seconds'' @
     (if truthy (get_opt r ''status'') then '' (last status: '' @ js_toString (get_opt r ''status'') @ '')''
      else [])"


fun is_job_failed :: "error \<Rightarrow> bool" where
  "is_job_failed (NodeOperationError m d) = prefix ''Transcription failed with status \"error\"'' m"
| "is_job_failed (NodeOperationErrorInherited m k) = prefix ''Transcription failed with status \"error\"'' m"
| "is_job_failed e = False"

text \<open>The two errors that the poll loop throws by itself.\<close>

definition job_failed_error :: "variant \<Rightarrow> json \<Rightarrow> error" where
  "job_failed_error v r =
     NodeOperationError
       (''Transcription failed with status \"error\"'' @
          (if truthy (get_opt r ''error_message'') then '': '' @ js_toString (get_opt r ''error_message'')
           else []))
       (describe v ''The transcription could not be completed. Check that the audio file is valid and in a supported format.'')"

definition timeout_error :: "variant \<Rightarrow> PollOptions \<Rightarrow> json \<Rightarrow> error" where
  "timeout_error v options r =
     NodeOperationError (timeout_message (maxWaitSec options) r)
       (describe v ''The transcription is taking longer than expected. Try increasing the \"Max Wait\" setting, or disable \"Wait for Completion\" and fetch results later.'')"



text \<open>Inputs for the examples: an error object with no field, an environment that answers
  at once, is never cancelled and holds no binary data, and the world at time 0.\<close>

definition no_error :: SonioxApiError where
  "no_error = \<lparr>message = None, description = None, httpCode = None, cause = None, response = None\<rparr>"

definition quiet_env :: "(nat \<Rightarrow> request \<Rightarrow> SonioxApiError + json) \<Rightarrow> env" where
  "quiet_env f =
     \<lparr>respond = f, latency = (\<lambda>n. 0), cancelled = (\<lambda>t. False),
        json_parse = (\<lambda>s. Inl ''Unexpected token''), binary = (\<lambda>s. Inl ''no binary data''),
        random_hex = ''0''\<rparr>"

definition start :: world where
  "start = \<lparr>now = 0, calls = [], objs = []\<rparr>"

text \<open>How a run of the poll loop ends, read from the calls it made: the first is a status
  request, and the answer to the last decides the result.\<close>

definition loop_end :: "variant \<Rightarrow> env \<Rightarrow> PollOptions \<Rightarrow> int \<Rightarrow> (error + json) \<Rightarrow> world \<Rightarrow> call list \<Rightarrow> bool" where
  "loop_end v en options T res w' cs =
     (cs \<noteq> [] \<and> sent (hd cs) = status_request options \<and>
      (case outcome (last cs) of
         Inl e \<Rightarrow> res = Inl (apiError v e)
       | Inr r \<Rightarrow>
           if get_opt r ''status'' = JStr ''completed'' then res = Inr r
           else if get_opt r ''status'' = JStr ''error'' then res = Inl (job_failed_error v r)
           else (res = Inl (timeout_error v options r) \<and> T < answered (last cs) \<and> now w' = answered (last cs)) \<or>
                (res = Inl ExecutionCancelledError \<and> cancelled en (answered (last cs)))))"



text \<open>The request of a deletion.\<close>

definition delete_request :: "string \<Rightarrow> request" where
  "delete_request u = \<lparr>req_method = DELETE, req_url = u, req_body = NoBody, req_headers = [], req_json = True\<rparr>"


text \<open>Parameters for the examples: a create from a URL, every other parameter at the
  default of the node.\<close>

definition example_params :: params where
  "example_params =
     \<lparr>p_audioSource = ''url'', p_model = ''stt-async-v3'', p_binaryPropertyName = ''data'',
        p_audioUrl = ''https://example.com/audio.wav'', p_fileId = [], p_languageHints = JObj [],
        p_languageHintsStrict = False, p_enableLanguageIdentification = False,
        p_enableSpeakerDiarization = False, p_contextMode = ''text'', p_contextText = [],
        p_contextJson = JObj [], p_clientReferenceId = [], p_webhookUrl = [],
        p_webhookAuthHeaderName = [], p_webhookAuthHeaderValue = [], p_translationType = ''none'',
        p_targetLanguage = [], p_languageA = [], p_languageB = [], p_waitForCompletion = True,
        p_pollIntervalSec = 1, p_maxWaitSec = 300, p_outputMode = ''full'', p_autoDelete = True\<rparr>"

text \<open>An environment for the cleanup: the status request finds the job completed, the
  transcript is a text, and every deletion fails with the message \<^verbatim>\<open>gone\<close>.\<close>

definition cleanup_env :: env where
  "cleanup_env =
     quiet_env (\<lambda>n rq. if req_method rq = DELETE then Inl (no_error\<lparr>message := Some ''gone''\<rparr>)
                         else if n = 0 then Inr (JObj [(''status'', JStr ''completed'')])
                         else Inr (JObj [(''text'', JStr ''hello'')]))"




text \<open>A create in structured context mode whose context is the text \<^verbatim>\<open>[1,2,3]\<close>: the
  environment parses that text to the array and accepts every call. The context of a
  call is the property \<^verbatim>\<open>context\<close> of its body.\<close>

definition array_env :: env where
  "array_env =
     (quiet_env (\<lambda>n rq. Inr (JObj [(''id'', JStr ''t1''), (''status'', JStr ''queued'')])))
       \<lparr>json_parse := (\<lambda>s. if s = ''[1,2,3]'' then Inr (JArr [JNum 1, JNum 2, JNum 3])
                               else Inl ''Unexpected token'')\<rparr>"

definition array_params :: params where
  "array_params =
     example_params\<lparr>p_contextMode := ''structured'', p_contextJson := JStr ''[1,2,3]'',
                      p_waitForCompletion := False\<rparr>"

definition context_sent :: "call \<Rightarrow> json option" where
  "context_sent c = (case req_body (sent c) of JsonBody (JObj kvs) \<Rightarrow> map_of kvs ''context'' | _ \<Rightarrow> None)"







section \<open>Properties\<close>

subsection \<open>Association lists and the heap\<close>

lemma map_of_update_other: "k \<noteq> K \<Longrightarrow> map_of (AList.update K x kvs) k = map_of kvs k"
  by (simp add: update_conv')

lemma map_of_update_same: "map_of (AList.update K x kvs) K = Some x"
  by (simp add: update_conv')

lemma keys_update_present: "hasOwnProperty kvs K \<Longrightarrow> map fst (AList.update K x kvs) = map fst kvs"
  by (simp add: hasOwnProperty_def update_keys map_of_eq_None_iff)

lemma deref_alloc_old: "a < length h \<Longrightarrow> deref (h @ [x]) a = deref h a"
  by (simp add: deref_def nth_append)

lemma deref_alloc_new: "deref (h @ [x]) (length h) = x"
  by (simp add: deref_def)

lemma deref_object_in_heap: "deref h a = JObj kvs \<Longrightarrow> a < length h"
  by (simp add: deref_def split: if_splits)

subsection \<open>Redaction\<close>

text \<open>
  Claim C5. For an object passed to the redaction function: when the object has the own
  property \<^verbatim>\<open>webhook_auth_header_value\<close>, the result is a new object in which that
  property is \<^verbatim>\<open>[REDACTED]\<close>, every other key has the value it has in the input and the
  keys keep their order, and every object that existed before, the input among them, is
  as it was; when the object lacks the key, the result is the input's own address and
  the heap is unchanged.
\<close>

theorem redact_own_property:
  assumes "deref h data = JObj kvs"
    and "redactWebhookAuthHeaderValue data h = (r, h')"
  shows "if hasOwnProperty kvs ''webhook_auth_header_value''
         then (\<exists>kvs'. deref h' r = JObj kvs' \<and>
                 map_of kvs' ''webhook_auth_header_value'' = Some (JStr ''[REDACTED]'') \<and>
                 (\<forall>k. k \<noteq> ''webhook_auth_header_value'' \<longrightarrow> map_of kvs' k = map_of kvs k) \<and>
                 map fst kvs' = map fst kvs) \<and>
              r \<noteq> data \<and> (\<forall>a < length h. deref h' a = deref h a) \<and> deref h' data = JObj kvs
         else r = data \<and> h' = h"
proof (cases "hasOwnProperty kvs ''webhook_auth_header_value''")
  case True
  have inside: "data < length h"
    using assms(1) by (rule deref_object_in_heap)
  from True assms have r: "r = length h"
    and h': "h' = h @ [JObj (AList.update ''webhook_auth_header_value'' (JStr ''[REDACTED]'') kvs)]"
    by (auto simp: redactWebhookAuthHeaderValue_def alloc_def)
  have "deref h' r = JObj (AList.update ''webhook_auth_header_value'' (JStr ''[REDACTED]'') kvs)"
    unfolding r h' by (rule deref_alloc_new)
  moreover have "\<forall>a < length h. deref h' a = deref h a"
    unfolding h' by (simp add: deref_alloc_old)
  moreover have "r \<noteq> data"
    using inside r by simp
  ultimately show ?thesis
    using True inside assms(1) map_of_update_other map_of_update_same keys_update_present
    by (auto simp del: AList.update.simps)
next
  case False
  with assms show ?thesis
    by (auto simp: redactWebhookAuthHeaderValue_def)
qed

theorem redact_own_property_witness:
  "deref [JObj [(''id'', JStr ''t1''), (''webhook_auth_header_value'', JStr ''secret'')]] 0 =
     JObj [(''id'', JStr ''t1''), (''webhook_auth_header_value'', JStr ''secret'')] \<and>
   redactWebhookAuthHeaderValue 0 [JObj [(''id'', JStr ''t1''), (''webhook_auth_header_value'', JStr ''secret'')]] =
     (1, [JObj [(''id'', JStr ''t1''), (''webhook_auth_header_value'', JStr ''secret'')],
          JObj [(''id'', JStr ''t1''), (''webhook_auth_header_value'', JStr ''[REDACTED]'')]]) \<and>
   hasOwnProperty [(''id'', JStr ''t1''), (''webhook_auth_header_value'', JStr ''secret'')]
     ''webhook_auth_header_value'' \<and>
   (1::nat) \<noteq> 0"
  using redact_own_property [of "[JObj [(''id'', JStr ''t1''), (''webhook_auth_header_value'', JStr ''secret'')]]" 0
      "[(''id'', JStr ''t1''), (''webhook_auth_header_value'', JStr ''secret'')]" 1
      "[JObj [(''id'', JStr ''t1''), (''webhook_auth_header_value'', JStr ''secret'')],
        JObj [(''id'', JStr ''t1''), (''webhook_auth_header_value'', JStr ''[REDACTED]'')]]"]
  by (simp add: redactWebhookAuthHeaderValue_def deref_def hasOwnProperty_def alloc_def)

lemma redacted_absent:
  "\<not> hasOwnProperty kvs ''webhook_auth_header_value'' \<Longrightarrow>
   redacted (JObj kvs) w = (length (objs w), w\<lparr>objs := objs w @ [JObj kvs]\<rparr>)"
  by (simp add: redacted_def alloc_def redactWebhookAuthHeaderValue_def deref_def)

lemma redacted_present:
  "hasOwnProperty kvs ''webhook_auth_header_value'' \<Longrightarrow>
   redacted (JObj kvs) w =
     (Suc (length (objs w)),
      w\<lparr>objs := objs w @ [JObj kvs,
                 JObj (AList.update ''webhook_auth_header_value'' (JStr ''[REDACTED]'') kvs)]\<rparr>)"
  by (simp add: redacted_def alloc_def redactWebhookAuthHeaderValue_def deref_def)

lemma emitted_absent:
  "\<not> hasOwnProperty kvs ''webhook_auth_header_value'' \<Longrightarrow> emitted (JObj kvs) w = JObj kvs"
  by (simp add: emitted_def redacted_absent deref_def)

lemma emitted_present:
  "hasOwnProperty kvs ''webhook_auth_header_value'' \<Longrightarrow>
   emitted (JObj kvs) w = JObj (AList.update ''webhook_auth_header_value'' (JStr ''[REDACTED]'') kvs)"
  by (simp add: emitted_def redacted_present deref_def nth_append)

text \<open>
  Claim C10. Redaction is shallow. Whatever the object, the emitted object differs from
  it at most in the top-level property \<^verbatim>\<open>webhook_auth_header_value\<close>: every other
  property keeps its value, nested occurrences of the key included. An object whose top
  level lacks the key and whose properties hold the key at some depth is returned
  itself, the heap unchanged, and the emitted object still holds the nested secret.
\<close>

theorem redaction_is_shallow:
  "(\<exists>out. emitted (JObj kvs) w = JObj out \<and>
      (\<forall>k. k \<noteq> ''webhook_auth_header_value'' \<longrightarrow> map_of out k = map_of kvs k)) \<and>
   (\<not> hasOwnProperty kvs ''webhook_auth_header_value'' \<and> nested_secret kvs \<longrightarrow>
      (deref h data = JObj kvs \<longrightarrow> redactWebhookAuthHeaderValue data h = (data, h)) \<and>
      emitted (JObj kvs) w = JObj kvs \<and>
      nested_secret (case emitted (JObj kvs) w of JObj out \<Rightarrow> out | _ \<Rightarrow> []))"
proof (rule conjI)
  show "\<exists>out. emitted (JObj kvs) w = JObj out \<and>
      (\<forall>k. k \<noteq> ''webhook_auth_header_value'' \<longrightarrow> map_of out k = map_of kvs k)"
  proof (cases "hasOwnProperty kvs ''webhook_auth_header_value''")
    case True
    have out: "emitted (JObj kvs) w =
        JObj (AList.update ''webhook_auth_header_value'' (JStr ''[REDACTED]'') kvs)"
      using True by (rule emitted_present)
    have "\<forall>k. k \<noteq> ''webhook_auth_header_value'' \<longrightarrow>
        map_of (AList.update ''webhook_auth_header_value'' (JStr ''[REDACTED]'') kvs) k = map_of kvs k"
      by (simp add: map_of_update_other del: AList.update.simps)
    then show ?thesis
      unfolding out by (intro exI conjI) (rule refl, assumption)
  next
    case False
    have out: "emitted (JObj kvs) w = JObj kvs"
      using False by (rule emitted_absent)
    show ?thesis
      unfolding out by (intro exI conjI allI impI) (rule refl, rule refl)
  qed
next
  show "\<not> hasOwnProperty kvs ''webhook_auth_header_value'' \<and> nested_secret kvs \<longrightarrow>
      (deref h data = JObj kvs \<longrightarrow> redactWebhookAuthHeaderValue data h = (data, h)) \<and>
      emitted (JObj kvs) w = JObj kvs \<and>
      nested_secret (case emitted (JObj kvs) w of JObj out \<Rightarrow> out | _ \<Rightarrow> [])"
  proof (intro impI, elim conjE)
    assume absent: "\<not> hasOwnProperty kvs ''webhook_auth_header_value''" and nested: "nested_secret kvs"
    have out: "emitted (JObj kvs) w = JObj kvs"
      using absent by (rule emitted_absent)
    have same: "deref h data = JObj kvs \<longrightarrow> redactWebhookAuthHeaderValue data h = (data, h)"
      using absent by (simp add: redactWebhookAuthHeaderValue_def)
    show "(deref h data = JObj kvs \<longrightarrow> redactWebhookAuthHeaderValue data h = (data, h)) \<and>
      emitted (JObj kvs) w = JObj kvs \<and>
      nested_secret (case emitted (JObj kvs) w of JObj out \<Rightarrow> out | _ \<Rightarrow> [])"
      unfolding out using same nested by simp
  qed
qed

theorem redaction_is_shallow_witness:
  "\<not> hasOwnProperty [(''id'', JStr ''t1''), (''request'', JObj [(''webhook_auth_header_value'', JStr ''secret'')])]
       ''webhook_auth_header_value'' \<and>
   nested_secret [(''id'', JStr ''t1''), (''request'', JObj [(''webhook_auth_header_value'', JStr ''secret'')])] \<and>
   emitted (JObj [(''id'', JStr ''t1''), (''request'', JObj [(''webhook_auth_header_value'', JStr ''secret'')])])
       \<lparr>now = 0, calls = [], objs = []\<rparr> =
     JObj [(''id'', JStr ''t1''), (''request'', JObj [(''webhook_auth_header_value'', JStr ''secret'')])] \<and>
   redactWebhookAuthHeaderValue 0
       [JObj [(''id'', JStr ''t1''), (''request'', JObj [(''webhook_auth_header_value'', JStr ''secret'')])]] =
     (0, [JObj [(''id'', JStr ''t1''), (''request'', JObj [(''webhook_auth_header_value'', JStr ''secret'')])]])"
  using redaction_is_shallow [of "[(''id'', JStr ''t1''), (''request'', JObj [(''webhook_auth_header_value'', JStr ''secret'')])]"
      "\<lparr>now = 0, calls = [], objs = []\<rparr>"
      "[JObj [(''id'', JStr ''t1''), (''request'', JObj [(''webhook_auth_header_value'', JStr ''secret'')])]]" 0]
  by (simp add: hasOwnProperty_def nested_secret_def deref_def)

subsection \<open>Language hints\<close>

lemma map_codes_objects: "map_codes (map JObj entries) = Inr (map (\<lambda>e. get_prop e ''code'') entries)"
  by (induction entries) simp_all

lemma kept_codes_filter:
  "filter isNonEmptyString (map (\<lambda>e. get_prop e ''code'') entries) = map JStr (spec_language_codes entries)"
proof (induction entries)
  case Nil
  show ?case by simp
next
  case (Cons e es)
  show ?case
  proof (cases "map_of e ''code''")
    case None
    with Cons show ?thesis by (simp add: get_prop_def)
  next
    case (Some c)
    with Cons show ?thesis by (cases c) (simp_all add: get_prop_def)
  qed
qed

lemma spec_codes_nonempty: "c \<in> set (spec_language_codes entries) \<Longrightarrow> js_trim c \<noteq> []"
  by (induction entries) (auto split: option.splits json.splits if_splits)

lemma spec_codes_complete:
  "e \<in> set entries \<Longrightarrow> get_prop e ''code'' = JStr s \<Longrightarrow> js_trim s \<noteq> [] \<Longrightarrow>
   s \<in> set (spec_language_codes entries)"
  by (induction entries) (auto simp: get_prop_def split: option.splits json.splits if_splits)

text \<open>
  Claim C6. For a language-hints input whose \<^verbatim>\<open>languages\<close> is a list of entries
  (objects), the normalized list is the list of the codes that are strings and non-empty
  after trimming: it is a subsequence of the entered codes (same relative order, no code
  altered), every code in it is non-empty after trimming, and every entry with such a
  code is in it.
\<close>

theorem language_hints_kept_in_order:
  assumes "get_opt input ''languages'' = JArr (map JObj entries)"
  shows "normalizeLanguageHints input = Inr (map JStr (spec_language_codes entries)) \<and>
         subseq (map JStr (spec_language_codes entries)) (map (\<lambda>e. get_prop e ''code'') entries) \<and>
         (\<forall>c \<in> set (spec_language_codes entries). js_trim c \<noteq> []) \<and>
         (\<forall>e \<in> set entries. \<forall>s. get_prop e ''code'' = JStr s \<and> js_trim s \<noteq> [] \<longrightarrow>
            s \<in> set (spec_language_codes entries))"
proof -
  have "normalizeLanguageHints input = Inr (map JStr (spec_language_codes entries))"
    using assms by (simp add: normalizeLanguageHints_def map_codes_objects kept_codes_filter)
  moreover have "subseq (map JStr (spec_language_codes entries)) (map (\<lambda>e. get_prop e ''code'') entries)"
    using subseq_filter_left [of isNonEmptyString "map (\<lambda>e. get_prop e ''code'') entries"]
    by (simp only: kept_codes_filter)
  ultimately show ?thesis
    using spec_codes_nonempty spec_codes_complete by blast
qed

theorem language_hints_kept_in_order_witness:
  "get_opt (JObj [(''languages'', JArr (map JObj [[(''code'', JStr ''en'')], [(''code'', JStr ''  '')],
       [(''code'', JStr '' de '')], [], [(''code'', JStr ''fr'')]]))]) ''languages'' =
     JArr (map JObj [[(''code'', JStr ''en'')], [(''code'', JStr ''  '')], [(''code'', JStr '' de '')], [],
       [(''code'', JStr ''fr'')]]) \<and>
   normalizeLanguageHints (JObj [(''languages'', JArr (map JObj [[(''code'', JStr ''en'')],
       [(''code'', JStr ''  '')], [(''code'', JStr '' de '')], [], [(''code'', JStr ''fr'')]]))]) =
     Inr [JStr ''en'', JStr '' de '', JStr ''fr'']"
  using language_hints_kept_in_order [of "JObj [(''languages'', JArr (map JObj [[(''code'', JStr ''en'')],
       [(''code'', JStr ''  '')], [(''code'', JStr '' de '')], [], [(''code'', JStr ''fr'')]]))]"
     "[[(''code'', JStr ''en'')], [(''code'', JStr ''  '')], [(''code'', JStr '' de '')], [],
       [(''code'', JStr ''fr'')]]"]
  by (simp add: get_prop_def js_trim_def is_ws_def)

subsection \<open>Requests\<close>

lemma soniox_effect:
  assumes "sonioxApiRequest v en m u b w = (res, w')"
  shows "\<exists>out. calls w' = calls w @ [\<lparr>sent = \<lparr>req_method = m, req_url = u, req_body = b, req_headers = [], req_json = True\<rparr>,
                                         outcome = out, answered = now w'\<rparr>] \<and>
               out = respond en (length (calls w)) \<lparr>req_method = m, req_url = u, req_body = b, req_headers = [], req_json = True\<rparr> \<and>
               now w \<le> now w' \<and> objs w' = objs w \<and>
               res = (case out of Inl e \<Rightarrow> Inl (apiError v e) | Inr r \<Rightarrow> Inr r)"
  using assms
  by (auto simp: sonioxApiRequest_def httpRequestWithAuthentication_def Let_def split: sum.splits)



subsection \<open>The poll loop\<close>

lemma pollIteration_cases:
  "\<exists>out w1. calls w1 = calls w @ [\<lparr>sent = status_request options, outcome = out, answered = now w1\<rparr>] \<and>
      now w \<le> now w1 \<and> objs w1 = objs w \<and>
      sonioxApiRequest v en GET (''/v1/transcriptions/'' @ js_toString (transcriptionId options)) NoBody w =
        (case out of Inl e \<Rightarrow> Inl (apiError v e) | Inr r \<Rightarrow> Inr r, w1) \<and>
      pollIteration v en options T w =
        (case out of
           Inl e \<Rightarrow> Throw (apiError v e) w1
         | Inr r \<Rightarrow>
             if get_opt r ''status'' = JStr ''completed'' then Break r w1
             else if get_opt r ''status'' = JStr ''error'' then Throw (job_failed_error v r) w1
             else if now w1 > T then Throw (timeout_error v options r) w1
             else if cancelled en (now w1) then Throw ExecutionCancelledError w1
             else Again (w1\<lparr>now := now w1 + max 1 (pollIntervalSec options) * 1000\<rparr>))"
proof -
  obtain res w1 where call:
    "sonioxApiRequest v en GET (''/v1/transcriptions/'' @ js_toString (transcriptionId options)) NoBody w = (res, w1)"
    by (cases "sonioxApiRequest v en GET (''/v1/transcriptions/'' @ js_toString (transcriptionId options)) NoBody w")
  from soniox_effect [OF call] obtain out where
    log: "calls w1 = calls w @ [\<lparr>sent = status_request options, outcome = out, answered = now w1\<rparr>]"
    and time: "now w \<le> now w1" and heap: "objs w1 = objs w"
    and res: "res = (case out of Inl e \<Rightarrow> Inl (apiError v e) | Inr r \<Rightarrow> Inr r)"
    unfolding status_request_def by blast
  have "pollIteration v en options T w =
        (case out of
           Inl e \<Rightarrow> Throw (apiError v e) w1
         | Inr r \<Rightarrow>
             if get_opt r ''status'' = JStr ''completed'' then Break r w1
             else if get_opt r ''status'' = JStr ''error'' then Throw (job_failed_error v r) w1
             else if now w1 > T then Throw (timeout_error v options r) w1
             else if cancelled en (now w1) then Throw ExecutionCancelledError w1
             else Again (w1\<lparr>now := now w1 + max 1 (pollIntervalSec options) * 1000\<rparr>))"
    unfolding pollIteration_def call res
    by (cases out)
       (simp_all add: Let_def sleepWithAbort_def job_failed_error_def timeout_error_def timeout_message_def)
  with log time heap call res show ?thesis
    by blast
qed

lemma pollLoop_end:
  "\<exists>cs. calls (snd (pollLoop v en options T w)) = calls w @ cs \<and>
        loop_end v en options T (fst (pollLoop v en options T w)) (snd (pollLoop v en options T w)) cs"
proof (induction v en options T w rule: pollLoop.induct)
  case (1 v en options T w)
  obtain out w1 where
    log: "calls w1 = calls w @ [\<lparr>sent = status_request options, outcome = out, answered = now w1\<rparr>]"
    and step: "pollIteration v en options T w =
        (case out of
           Inl e \<Rightarrow> Throw (apiError v e) w1
         | Inr r \<Rightarrow>
             if get_opt r ''status'' = JStr ''completed'' then Break r w1
             else if get_opt r ''status'' = JStr ''error'' then Throw (job_failed_error v r) w1
             else if now w1 > T then Throw (timeout_error v options r) w1
             else if cancelled en (now w1) then Throw ExecutionCancelledError w1
             else Again (w1\<lparr>now := now w1 + max 1 (pollIntervalSec options) * 1000\<rparr>))"
    using pollIteration_cases [of w options v en T] by blast
  let ?c = "\<lparr>sent = status_request options, outcome = out, answered = now w1\<rparr>"
  show ?case
  proof (cases "\<exists>w2. pollIteration v en options T w = Again w2")
    case True
    then obtain w2 where again: "pollIteration v en options T w = Again w2" by blast
    with step have w2: "w2 = w1\<lparr>now := now w1 + max 1 (pollIntervalSec options) * 1000\<rparr>"
      by (auto split: sum.splits if_splits)
    from 1 [OF again] obtain cs where
      cs: "calls (snd (pollLoop v en options T w2)) = calls w2 @ cs"
      and fin: "loop_end v en options T (fst (pollLoop v en options T w2)) (snd (pollLoop v en options T w2)) cs"
      by blast
    have unfold: "pollLoop v en options T w = pollLoop v en options T w2"
      by (subst pollLoop.simps) (simp add: again)
    have "calls (snd (pollLoop v en options T w)) = calls w @ (?c # cs)"
      unfolding unfold using cs log by (simp add: w2)
    moreover have "loop_end v en options T (fst (pollLoop v en options T w)) (snd (pollLoop v en options T w)) (?c # cs)"
    proof -
      from fin have ne: "cs \<noteq> []"
        by (simp add: loop_end_def)
      then have last: "last (?c # cs) = last cs"
        by simp
      from fin show ?thesis
        unfolding unfold loop_end_def last by simp
    qed
    ultimately show ?thesis by blast
  next
    case False
    have "calls (snd (pollLoop v en options T w)) = calls w @ [?c] \<and>
          loop_end v en options T (fst (pollLoop v en options T w)) (snd (pollLoop v en options T w)) [?c]"
      using False step log
      by (subst (1 2 3) pollLoop.simps) (auto simp: loop_end_def split: sum.splits if_splits)
    then show ?thesis by blast
  qed
qed

lemmas run_defs =
  pollForCompletion_def pollLoop.simps pollIteration_def sonioxApiRequest_def
  httpRequestWithAuthentication_def sleepWithAbort_def quiet_env_def start_def Let_def
  get_prop_def describe_def

lemma pollForCompletion_loop:
  "pollForCompletion v en options w =
     (case pollLoop v en options (now w + max 1 (maxWaitSec options) * 1000) w of
        (Inl e, w1) \<Rightarrow> (Inl e, w1)
      | (Inr r, w1) \<Rightarrow>
          (case sonioxApiRequest v en GET
                  (''/v1/transcriptions/'' @ js_toString (transcriptionId options) @ ''/transcript'') NoBody w1 of
             (Inl e, w2) \<Rightarrow> (Inl e, w2)
           | (Inr t, w2) \<Rightarrow> (Inr \<lparr>status = r, transcript = t\<rparr>, w2)))"
  by (simp add: pollForCompletion_def Let_def)

text \<open>What pollForCompletion returns, from the end of its loop.\<close>

lemma pollForCompletion_end:
  obtains (thrown) e w1 cs where
      "pollLoop v en options (now w + max 1 (maxWaitSec options) * 1000) w = (Inl e, w1)"
      "pollForCompletion v en options w = (Inl e, w1)"
      "calls w1 = calls w @ cs"
      "loop_end v en options (now w + max 1 (maxWaitSec options) * 1000) (Inl e) w1 cs"
  | (completed) r w1 cs w2 c where
      "pollLoop v en options (now w + max 1 (maxWaitSec options) * 1000) w = (Inr r, w1)"
      "calls w1 = calls w @ cs"
      "loop_end v en options (now w + max 1 (maxWaitSec options) * 1000) (Inr r) w1 cs"
      "calls w2 = calls w1 @ [c]"
      "sent c = transcript_request options"
      "pollForCompletion v en options w =
         (case outcome c of Inl e \<Rightarrow> Inl (apiError v e) | Inr t \<Rightarrow> Inr \<lparr>status = r, transcript = t\<rparr>, w2)"
proof -
  obtain res w1 where loop: "pollLoop v en options (now w + max 1 (maxWaitSec options) * 1000) w = (res, w1)"
    by (cases "pollLoop v en options (now w + max 1 (maxWaitSec options) * 1000) w")
  from pollLoop_end [of v en options "now w + max 1 (maxWaitSec options) * 1000" w] loop
  obtain cs where cs: "calls w1 = calls w @ cs"
    and fin: "loop_end v en options (now w + max 1 (maxWaitSec options) * 1000) res w1 cs"
    by auto
  show thesis
  proof (cases res)
    case (Inl e)
    with loop cs fin show thesis
      by (intro thrown [of e w1 cs]) (simp_all add: pollForCompletion_loop)
  next
    case (Inr r)
    obtain res2 w2 where call:
      "sonioxApiRequest v en GET (''/v1/transcriptions/'' @ js_toString (transcriptionId options) @ ''/transcript'') NoBody w1 = (res2, w2)"
      by (cases "sonioxApiRequest v en GET (''/v1/transcriptions/'' @ js_toString (transcriptionId options) @ ''/transcript'') NoBody w1")
    from soniox_effect [OF call] obtain out where
      log: "calls w2 = calls w1 @ [\<lparr>sent = transcript_request options, outcome = out, answered = now w2\<rparr>]"
      and res2: "res2 = (case out of Inl e \<Rightarrow> Inl (apiError v e) | Inr t \<Rightarrow> Inr t)"
      unfolding transcript_request_def by blast
    have "pollForCompletion v en options w =
         (case out of Inl e \<Rightarrow> Inl (apiError v e) | Inr t \<Rightarrow> Inr \<lparr>status = r, transcript = t\<rparr>, w2)"
      by (cases out) (simp_all only: pollForCompletion_loop loop Inr call res2 prod.case sum.case)
    with loop cs fin log Inr show thesis
      by (intro completed [of r w1 cs w2 "\<lparr>sent = transcript_request options, outcome = out, answered = now w2\<rparr>"]) simp_all
  qed
qed

lemma timeout_message_includes:
  "sublist (show_int seconds) (timeout_message seconds r) \<and>
   (truthy (get_opt r ''status'') \<longrightarrow> sublist (js_toString (get_opt r ''status'')) (timeout_message seconds r))"
proof -
  have "timeout_message seconds r =
      ''Polling timed out after '' @ show_int seconds @
        ('' seconds'' @ (if truthy (get_opt r ''status'') then '' (last status: '' @ js_toString (get_opt r ''status'') @ '')'' else []))"
    by (simp add: timeout_message_def)
  then have a: "sublist (show_int seconds) (timeout_message seconds r)"
    unfolding sublist_def by blast
  have "truthy (get_opt r ''status'') \<Longrightarrow> timeout_message seconds r =
      (''Polling timed out after '' @ show_int seconds @ '' seconds'' @ '' (last status: '') @
        js_toString (get_opt r ''status'') @ '')''"
    by (simp add: timeout_message_def)
  then have "truthy (get_opt r ''status'') \<Longrightarrow> sublist (js_toString (get_opt r ''status'')) (timeout_message seconds r)"
    unfolding sublist_def by blast
  with a show ?thesis by blast
qed

text \<open>
  Claim C3, as amended. In an execution of \<^verbatim>\<open>pollForCompletion\<close> in which every request is
  answered with a status other than \<^verbatim>\<open>completed\<close> and \<^verbatim>\<open>error\<close>, the request that is answered
  after the deadline included, and the wait is never cancelled, the loop fails with the
  timeout error: its message is \<^verbatim>\<open>Polling timed out after N seconds\<close> for the configured
  maximum wait N, followed by \<^verbatim>\<open>(last status: S)\<close> for the status S of the last answer
  when that status is true; the last answer came after the deadline, which is the clock
  at entry plus the larger of one second and the maximum wait.
\<close>

theorem poll_times_out:
  assumes answers: "list_all nonterminal_answer (new_calls w (snd (pollForCompletion v en options w)))"
    and awake: "\<forall>t. \<not> cancelled en t"
  shows "\<exists>r. fst (pollForCompletion v en options w) = Inl (timeout_error v options r) \<and>
             outcome (last (calls (snd (pollForCompletion v en options w)))) = Inr r \<and>
             now w + max 1 (maxWaitSec options) * 1000 < answered (last (calls (snd (pollForCompletion v en options w)))) \<and>
             error_message (timeout_error v options r) = timeout_message (maxWaitSec options) r \<and>
             sublist (show_int (maxWaitSec options)) (timeout_message (maxWaitSec options) r) \<and>
             (truthy (get_opt r ''status'') \<longrightarrow>
                sublist (js_toString (get_opt r ''status'')) (timeout_message (maxWaitSec options) r))"
proof (cases rule: pollForCompletion_end [of v en options w])
  case (thrown e w1 cs)
  from answers have nonterm:
    "\<forall>c \<in> set (new_calls w (snd (pollForCompletion v en options w))). nonterminal_answer c"
    by (simp add: list_all_iff)
  from thrown(4) have ne: "cs \<noteq> []"
    by (simp add: loop_end_def)
  then have mem: "last cs \<in> set (new_calls w w1)" and last: "last (calls w1) = last cs"
    using thrown(3) by (simp_all add: new_calls_def)
  with nonterm thrown(2) have "nonterminal_answer (last cs)"
    by simp
  then obtain r where r: "outcome (last cs) = Inr r" "\<not> terminal r"
    by (auto simp: nonterminal_answer_def split: sum.splits)
  with thrown(4) awake have "e = timeout_error v options r"
    and "now w + max 1 (maxWaitSec options) * 1000 < answered (last cs)"
    by (auto simp: loop_end_def terminal_def split: if_splits)
  with r last thrown(2) timeout_message_includes [of "maxWaitSec options" r] show ?thesis
    by (auto simp: timeout_error_def)
next
  case (completed r w1 cs w2 c)
  from answers have nonterm:
    "\<forall>c \<in> set (new_calls w (snd (pollForCompletion v en options w))). nonterminal_answer c"
    by (simp add: list_all_iff)
  from completed(3) have ne: "cs \<noteq> []"
    by (simp add: loop_end_def)
  then have "last cs \<in> set (new_calls w w2)"
    using completed(2,4) by (simp add: new_calls_def)
  with nonterm completed(6) have "nonterminal_answer (last cs)"
    by simp
  with completed(3) have False
    by (auto simp: loop_end_def nonterminal_answer_def terminal_def split: sum.splits if_splits)
  then show ?thesis ..
qed

lemma poll_example_timeout:
  "pollForCompletion Part001 (quiet_env (\<lambda>n rq. Inr (JObj [(''status'', JStr ''processing'')])))
      \<lparr>transcriptionId = JStr ''t1'', pollIntervalSec = 1, maxWaitSec = 2\<rparr> start =
   (Inl (NodeOperationError ''Polling timed out after 2 seconds (last status: processing)''
          (Some ''The transcription is taking longer than expected. Try increasing the \"Max Wait\" setting, or disable \"Wait for Completion\" and fetch results later.'')),
    \<lparr>now = 3000,
       calls = map (\<lambda>t. \<lparr>sent = status_request \<lparr>transcriptionId = JStr ''t1'', pollIntervalSec = 1, maxWaitSec = 2\<rparr>,
                          outcome = Inr (JObj [(''status'', JStr ''processing'')]), answered = t\<rparr>) [0, 1000, 2000, 3000],
       objs = []\<rparr>)"
  by (simp add: run_defs show_int_def digit_char_def status_request_def)

theorem poll_times_out_witness:
  "list_all nonterminal_answer
     (new_calls start
        (snd (pollForCompletion Part001 (quiet_env (\<lambda>n rq. Inr (JObj [(''status'', JStr ''processing'')])))
                \<lparr>transcriptionId = JStr ''t1'', pollIntervalSec = 1, maxWaitSec = 2\<rparr> start))) \<and>
   (\<forall>t. \<not> cancelled (quiet_env (\<lambda>n rq. Inr (JObj [(''status'', JStr ''processing'')]))) t) \<and>
   fst (pollForCompletion Part001 (quiet_env (\<lambda>n rq. Inr (JObj [(''status'', JStr ''processing'')])))
          \<lparr>transcriptionId = JStr ''t1'', pollIntervalSec = 1, maxWaitSec = 2\<rparr> start) =
     Inl (timeout_error Part001 \<lparr>transcriptionId = JStr ''t1'', pollIntervalSec = 1, maxWaitSec = 2\<rparr>
            (JObj [(''status'', JStr ''processing'')])) \<and>
   timeout_message 2 (JObj [(''status'', JStr ''processing'')]) =
     ''Polling timed out after 2 seconds (last status: processing)''"
proof -
  have answers: "list_all nonterminal_answer
     (new_calls start
        (snd (pollForCompletion Part001 (quiet_env (\<lambda>n rq. Inr (JObj [(''status'', JStr ''processing'')])))
                \<lparr>transcriptionId = JStr ''t1'', pollIntervalSec = 1, maxWaitSec = 2\<rparr> start)))"
    unfolding poll_example_timeout
    by (simp add: new_calls_def start_def nonterminal_answer_def terminal_def get_prop_def)
  have awake: "\<forall>t. \<not> cancelled (quiet_env (\<lambda>n rq. Inr (JObj [(''status'', JStr ''processing'')]))) t"
    by (simp add: quiet_env_def)
  from poll_times_out [OF answers awake] answers awake show ?thesis
    unfolding poll_example_timeout
    by (simp add: timeout_error_def timeout_message_def get_prop_def show_int_def digit_char_def)
qed

text \<open>
  The claim as stated fails: with a maximum wait of 2 seconds and an interval of 1 second
  the deadline is at 2000. The statuses answered at 0, 1000 and 2000 are
  \<^verbatim>\<open>processing\<close>; the loop sleeps once more, the request answered at 3000 finds
  \<^verbatim>\<open>completed\<close>, and the transcript is returned instead of a timeout.
\<close>

theorem poll_completes_after_deadline:
  "now start + max 1 (maxWaitSec \<lparr>transcriptionId = JStr ''t1'', pollIntervalSec = 1, maxWaitSec = 2\<rparr>) * 1000 = 2000 \<and>
   fst (pollForCompletion Part001
          (quiet_env (\<lambda>n rq. if n < 3 then Inr (JObj [(''status'', JStr ''processing'')])
                              else if n = 3 then Inr (JObj [(''status'', JStr ''completed'')])
                              else Inr (JObj [(''text'', JStr ''hello'')])))
          \<lparr>transcriptionId = JStr ''t1'', pollIntervalSec = 1, maxWaitSec = 2\<rparr> start) =
     Inr \<lparr>status = JObj [(''status'', JStr ''completed'')], transcript = JObj [(''text'', JStr ''hello'')]\<rparr> \<and>
   map (\<lambda>c. (answered c, outcome c))
     (calls (snd (pollForCompletion Part001
          (quiet_env (\<lambda>n rq. if n < 3 then Inr (JObj [(''status'', JStr ''processing'')])
                              else if n = 3 then Inr (JObj [(''status'', JStr ''completed'')])
                              else Inr (JObj [(''text'', JStr ''hello'')])))
          \<lparr>transcriptionId = JStr ''t1'', pollIntervalSec = 1, maxWaitSec = 2\<rparr> start))) =
     [(0, Inr (JObj [(''status'', JStr ''processing'')])),
      (1000, Inr (JObj [(''status'', JStr ''processing'')])),
      (2000, Inr (JObj [(''status'', JStr ''processing'')])),
      (3000, Inr (JObj [(''status'', JStr ''completed'')])),
      (3000, Inr (JObj [(''text'', JStr ''hello'')]))]"
  by (simp add: run_defs)








subsection \<open>The calls of the create operation\<close>


lemma new_calls_same: "calls w' = calls w \<Longrightarrow> new_calls w w' = []"
  by (simp add: new_calls_def)

lemma new_calls_append: "calls w' = calls w @ cs \<Longrightarrow> new_calls w w' = cs"
  by (simp add: new_calls_def)




lemma tryDelete_calls:
  assumes "tryDeleteResource en u what w = (r, w')"
  shows "calls w' = calls w @ [\<lparr>sent = delete_request u,
                                  outcome = respond en (length (calls w)) (delete_request u),
                                  answered = now w'\<rparr>] \<and>
         objs w' = objs w \<and>
         (r = None) = (\<not> isl (respond en (length (calls w)) (delete_request u)))"
  using assms
  by (auto simp: tryDeleteResource_def httpRequestWithAuthentication_def Let_def delete_request_def
           split: sum.splits)





lemma deleteResources_effect:
  assumes "deleteResources en tid fid w = (dr, w')"
  shows "\<exists>cs. calls w' = calls w @ cs \<and> objs w' = objs w \<and>
              list_all (\<lambda>c. req_method (sent c) = DELETE) cs \<and>
              length (warnings dr) = length (filter (\<lambda>c. isl (outcome c)) cs) \<and>
              map (\<lambda>c. req_url (sent c)) cs =
                (if truthy tid then [''/v1/transcriptions/'' @ js_toString tid] else []) @
                (if truthy fid then [''/v1/files/'' @ js_toString fid] else [])"
proof -
  define r0 where "r0 = \<lparr>deleted_transcription = None, deleted_file = None, warnings = []\<rparr>"
  define step1 where "step1 =
    (if truthy tid then
        (case tryDeleteResource en (''/v1/transcriptions/'' @ js_toString tid) (''transcription '' @ js_toString tid) w of
           (Some warning, w') \<Rightarrow> (r0\<lparr>warnings := warnings r0 @ [warning]\<rparr>, w')
         | (None, w') \<Rightarrow> (r0\<lparr>deleted_transcription := Some tid\<rparr>, w'))
      else (r0, w))"
  obtain r1 w1 where first: "step1 = (r1, w1)"
    by (cases step1)
  have r0: "warnings r0 = []"
    by (simp add: r0_def)
  have one: "\<exists>cs. calls w1 = calls w @ cs \<and> objs w1 = objs w \<and>
              list_all (\<lambda>c. req_method (sent c) = DELETE) cs \<and>
              length (warnings r1) = length (filter (\<lambda>c. isl (outcome c)) cs) \<and>
              map (\<lambda>c. req_url (sent c)) cs =
                (if truthy tid then [''/v1/transcriptions/'' @ js_toString tid] else [])"
  proof (cases "truthy tid")
    case False
    with first r0 show ?thesis
      by (simp add: step1_def)
  next
    case True
    obtain x wx where t: "tryDeleteResource en (''/v1/transcriptions/'' @ js_toString tid) (''transcription '' @ js_toString tid) w = (x, wx)"
      by (cases "tryDeleteResource en (''/v1/transcriptions/'' @ js_toString tid) (''transcription '' @ js_toString tid) w")
    from first True have r1: "(r1, w1) = (case x of Some warning \<Rightarrow> (r0\<lparr>warnings := warnings r0 @ [warning]\<rparr>, wx)
                                      | None \<Rightarrow> (r0\<lparr>deleted_transcription := Some tid\<rparr>, wx))"
      unfolding step1_def t by (simp split: option.splits)
    let ?c = "\<lparr>sent = delete_request (''/v1/transcriptions/'' @ js_toString tid),
               outcome = respond en (length (calls w)) (delete_request (''/v1/transcriptions/'' @ js_toString tid)),
               answered = now wx\<rparr>"
    from tryDelete_calls [OF t] have eff: "calls wx = calls w @ [?c]" "objs wx = objs w"
      "(x = None) = (\<not> isl (outcome ?c))"
      by simp_all
    have "calls w1 = calls w @ [?c]" "objs w1 = objs w" "length (warnings r1) = length (filter (\<lambda>c. isl (outcome c)) [?c])"
      using r1 eff r0 by (cases x; simp)+
    then show ?thesis
      using True by (intro exI [of _ "[?c]"]) (simp add: delete_request_def)
  qed
  from assms have second:
    "(if truthy fid then
        (case tryDeleteResource en (''/v1/files/'' @ js_toString fid) (''file '' @ js_toString fid) w1 of
           (Some warning, w') \<Rightarrow> (r1\<lparr>warnings := warnings r1 @ [warning]\<rparr>, w')
         | (None, w') \<Rightarrow> (r1\<lparr>deleted_file := Some fid\<rparr>, w'))
      else (r1, w1)) = (dr, w')"
    unfolding deleteResources_def Let_def r0_def [symmetric] step1_def [symmetric] first prod.case
      case_prod_Pair id_apply .
  from one obtain cs where cs: "calls w1 = calls w @ cs" "objs w1 = objs w"
    "list_all (\<lambda>c. req_method (sent c) = DELETE) cs"
    "length (warnings r1) = length (filter (\<lambda>c. isl (outcome c)) cs)"
    "map (\<lambda>c. req_url (sent c)) cs = (if truthy tid then [''/v1/transcriptions/'' @ js_toString tid] else [])"
    by blast
  show ?thesis
  proof (cases "truthy fid")
    case False
    with second cs show ?thesis
      by (intro exI [of _ cs]) simp
  next
    case True
    obtain x wx where t: "tryDeleteResource en (''/v1/files/'' @ js_toString fid) (''file '' @ js_toString fid) w1 = (x, wx)"
      by (cases "tryDeleteResource en (''/v1/files/'' @ js_toString fid) (''file '' @ js_toString fid) w1")
    from second True have dr: "(dr, w') = (case x of Some warning \<Rightarrow> (r1\<lparr>warnings := warnings r1 @ [warning]\<rparr>, wx)
                                      | None \<Rightarrow> (r1\<lparr>deleted_file := Some fid\<rparr>, wx))"
      unfolding t by (simp split: option.splits)
    let ?c = "\<lparr>sent = delete_request (''/v1/files/'' @ js_toString fid),
               outcome = respond en (length (calls w1)) (delete_request (''/v1/files/'' @ js_toString fid)),
               answered = now wx\<rparr>"
    from tryDelete_calls [OF t] have eff: "calls wx = calls w1 @ [?c]" "objs wx = objs w1"
      "(x = None) = (\<not> isl (outcome ?c))"
      by simp_all
    have "calls w' = calls w @ (cs @ [?c])" "objs w' = objs w"
      "length (warnings dr) = length (filter (\<lambda>c. isl (outcome c)) (cs @ [?c]))"
      using dr eff cs(1,2,4) by (cases x; simp)+
    then show ?thesis
      using True cs(3,5) by (intro exI [of _ "cs @ [?c]"]) (simp add: delete_request_def)
  qed
qed




















lemma finishCreate_wait_Part001:
  assumes "p_waitForCompletion p" and "get_member resp ''id'' = Inr tid" and "truthy tid"
    and "pollForCompletion Part001 en
           \<lparr>transcriptionId = tid, pollIntervalSec = p_pollIntervalSec p, maxWaitSec = p_maxWaitSec p\<rparr> w =
         (polled, w1)"
    and "(if p_autoDelete p then
            (case deleteResources en tid (if p_audioSource p = ''binary'' then fileId else JUndefined) w1 of
               (deleteResult, w') \<Rightarrow> (warnings deleteResult, w'))
          else ([], w1)) = (deleteWarnings, w2)"
  shows "finishCreate Part001 en p fileId resp w =
          (case polled of
             Inl pollError \<Rightarrow> (Inl pollError, w2)
           | Inr result \<Rightarrow>
               (case makeOutput p result w2 of
                  (r, w3) \<Rightarrow>
                    if deleteWarnings \<noteq> [] then
                      (case set_property r ''_deleteWarnings'' (JArr (map JStr deleteWarnings)) (objs w3) of
                         Inl e \<Rightarrow> (Inl e, w3)
                       | Inr h \<Rightarrow> (Inr r, w3\<lparr>objs := h\<rparr>))
                    else (Inr r, w3)))"
proof (cases "p_autoDelete p")
  case False
  with assms(5) have eq: "deleteWarnings = []" "w2 = w1"
    by simp_all
  from False assms(1-4) show ?thesis
    unfolding eq by (cases polled) (simp_all add: finishCreate_def Let_def split: prod.splits)
next
  case True
  obtain dr wd where del:
    "deleteResources en tid (if p_audioSource p = ''binary'' then fileId else JUndefined) w1 = (dr, wd)"
    by (cases "deleteResources en tid (if p_audioSource p = ''binary'' then fileId else JUndefined) w1")
  with True assms(5) have eq: "deleteWarnings = warnings dr" "w2 = wd"
    by simp_all
  from True del assms(1-4) show ?thesis
    unfolding eq by (cases polled) (simp_all add: finishCreate_def Let_def split: prod.splits)
qed



text \<open>The variables of the audio source after the chain of tests: exactly one of them is
  true, so the guard that follows never throws in a create execution.\<close>

lemma resolveAudioSource_one:
  assumes "resolveAudioSource v en p w = (Inr (audioUrl, fileId), w1)"
  shows "(p_audioSource p = ''url'' \<and> audioUrl = JStr (p_audioUrl p) \<and> fileId = JUndefined \<and> truthy audioUrl) \<or>
         (p_audioSource p = ''fileId'' \<and> audioUrl = JUndefined \<and> fileId = JStr (p_fileId p) \<and> truthy fileId) \<or>
         (p_audioSource p = ''binary'' \<and> audioUrl = JUndefined \<and> truthy fileId)"
proof -
  have up: "uploadFile v en n w = (Inr x, w') \<Longrightarrow> truthy x" for n x w'
    by (auto simp: uploadFile_def Let_def split: sum.splits prod.splits if_splits)
  have ne: "isNonEmptyString (JStr t) \<Longrightarrow> truthy (JStr t)" for t
    by (auto simp: js_trim_def)
  from assms show ?thesis
    by (auto simp: resolveAudioSource_def up ne js_trim_def split: if_splits sum.splits prod.splits)
qed







lemmas create_defs =
  create_def resolveAudioSource_def createRequest_def normalizeLanguageHints_def buildContext_def
  buildTranslation_def assembleBody_def field_if_def context_field_def finishCreate_def
  redacted_def makeOutput_def alloc_def redactWebhookAuthHeaderValue_def deref_def
  hasOwnProperty_def js_trim_def is_ws_def example_params_def set_property_def
  deleteResources_def tryDeleteResource_def parseJsonValue_def parseStructuredContext_def

lemma create_example:
  "create Part001 (quiet_env (\<lambda>n rq. Inr (JObj [(''id'', JStr ''t1''), (''status'', JStr ''queued'')])))
     (example_params\<lparr>p_waitForCompletion := False\<rparr>) start =
   (Inr 0,
    \<lparr>now = 0,
       calls = [\<lparr>sent = \<lparr>req_method = POST, req_url = ''/v1/transcriptions'',
                          req_body = JsonBody (JObj [(''model'', JStr ''stt-async-v3''),
                                                     (''audio_url'', JStr ''https://example.com/audio.wav'')]),
                          req_headers = [], req_json = True\<rparr>,
                 outcome = Inr (JObj [(''id'', JStr ''t1''), (''status'', JStr ''queued'')]),
                 answered = 0\<rparr>],
       objs = [JObj [(''id'', JStr ''t1''), (''status'', JStr ''queued'')]]\<rparr>)"
  by (simp add: create_defs run_defs)




subsection \<open>Cleanup after the poll\<close>

lemma deref_update: "r < length h \<Longrightarrow> deref (h[r := x]) r = x"
  by (simp add: deref_def)

lemma set_property_object:
  assumes "deref h r = JObj base"
  shows "set_property r k x h = Inr (h[r := JObj (AList.update k x base)])"
    and "deref (h[r := JObj (AList.update k x base)]) r = JObj (AList.update k x base)"
  using assms deref_object_in_heap [OF assms]
  by (simp_all add: set_property_def deref_update)

lemma makeOutput_text:
  assumes "p_outputMode p = ''textOnly''" and "makeOutput p result w = (r, w3)"
  shows "calls w3 = calls w \<and>
         deref (objs w3) r =
           JObj [(''text'', if get_opt (transcript result) ''text'' = JNull \<or>
                               get_opt (transcript result) ''text'' = JUndefined
                            then JStr [] else get_opt (transcript result) ''text'')]"
  using assms by (auto simp: makeOutput_def alloc_def deref_def Let_def)

lemma makeOutput_full:
  assumes "p_outputMode p \<noteq> ''textOnly''" and "transcript result = JObj tkvs"
    and "makeOutput p result w = (r, w3)"
  shows "calls w3 = calls w \<and>
         (\<exists>base. deref (objs w3) r = JObj base \<and>
            (\<forall>k. k \<noteq> ''webhook_auth_header_value'' \<longrightarrow> map_of base k = map_of tkvs k))"
proof (cases "hasOwnProperty tkvs ''webhook_auth_header_value''")
  case True
  from assms have "redacted (JObj tkvs) w = (r, w3)"
    by (simp add: makeOutput_def)
  with True have r: "r = Suc (length (objs w))"
    and w3: "w3 = w\<lparr>objs := objs w @ [JObj tkvs,
                 JObj (AList.update ''webhook_auth_header_value'' (JStr ''[REDACTED]'') tkvs)]\<rparr>"
    by (simp_all add: redacted_present)
  have "deref (objs w3) r = JObj (AList.update ''webhook_auth_header_value'' (JStr ''[REDACTED]'') tkvs)"
    unfolding r w3 by (simp add: deref_def nth_append)
  moreover have "\<forall>k. k \<noteq> ''webhook_auth_header_value'' \<longrightarrow>
      map_of (AList.update ''webhook_auth_header_value'' (JStr ''[REDACTED]'') tkvs) k = map_of tkvs k"
    by (simp add: map_of_update_other del: AList.update.simps)
  moreover have "calls w3 = calls w"
    unfolding w3 by simp
  ultimately show ?thesis
    by (intro conjI exI) (assumption, assumption, assumption)
next
  case False
  from assms have "redacted (JObj tkvs) w = (r, w3)"
    by (simp add: makeOutput_def)
  with False have r: "r = length (objs w)" and w3: "w3 = w\<lparr>objs := objs w @ [JObj tkvs]\<rparr>"
    by (simp_all add: redacted_absent)
  have "deref (objs w3) r = JObj tkvs"
    unfolding r w3 by (simp add: deref_def)
  moreover have "calls w3 = calls w"
    unfolding w3 by simp
  ultimately show ?thesis
    by (intro conjI exI allI impI) (assumption, assumption, rule refl)
qed

text \<open>
  Claim C2. In the create operation of src/unnamed/part_001 with wait for completion and
  auto delete: after the poll, the deletion of the transcription is attempted, and that of
  the file when the audio source is a binary upload; the warnings are as many as the
  deletions that failed. When the poll threw, its error is thrown after the deletions and
  no object is created. When the poll returned a transcript (an object, or any value in
  text-only mode), the output holds the text in text-only mode and every property of the
  transcript otherwise (the webhook secret redacted), and the property
  \<^verbatim>\<open>_deleteWarnings\<close> is the list of the warnings when there is one, and is not added
  when there is none.
\<close>

theorem auto_delete_after_poll:
  assumes wait: "p_waitForCompletion p" and auto: "p_autoDelete p"
    and id: "get_member resp ''id'' = Inr tid" and tid: "truthy tid"
    and poll: "pollForCompletion Part001 en
                 \<lparr>transcriptionId = tid, pollIntervalSec = p_pollIntervalSec p, maxWaitSec = p_maxWaitSec p\<rparr> w =
               (polled, w1)"
    and del: "deleteResources en tid (if p_audioSource p = ''binary'' then fileId else JUndefined) w1 = (dr, w2)"
  shows "map (\<lambda>c. (req_method (sent c), req_url (sent c))) (new_calls w1 w2) =
           (DELETE, ''/v1/transcriptions/'' @ js_toString tid) #
           (if p_audioSource p = ''binary'' \<and> truthy fileId then [(DELETE, ''/v1/files/'' @ js_toString fileId)]
            else []) \<and>
         length (warnings dr) = length (filter (\<lambda>c. isl (outcome c)) (new_calls w1 w2)) \<and>
         (\<forall>pollError. polled = Inl pollError \<longrightarrow>
            finishCreate Part001 en p fileId resp w = (Inl pollError, w2) \<and> objs w2 = objs w1) \<and>
         (\<forall>result. polled = Inr result \<and>
              (p_outputMode p = ''textOnly'' \<or> (\<exists>tkvs. transcript result = JObj tkvs)) \<longrightarrow>
            (\<exists>r w3 out. finishCreate Part001 en p fileId resp w = (Inr r, w3) \<and> calls w3 = calls w2 \<and>
               deref (objs w3) r = JObj out \<and>
               (p_outputMode p = ''textOnly'' \<longrightarrow>
                  map_of out ''text'' =
                    Some (if get_opt (transcript result) ''text'' = JNull \<or>
                             get_opt (transcript result) ''text'' = JUndefined
                          then JStr [] else get_opt (transcript result) ''text'')) \<and>
               (p_outputMode p \<noteq> ''textOnly'' \<longrightarrow>
                  (\<forall>tkvs k. transcript result = JObj tkvs \<and> k \<noteq> ''webhook_auth_header_value'' \<and>
                       k \<noteq> ''_deleteWarnings'' \<longrightarrow> map_of out k = map_of tkvs k)) \<and>
               (warnings dr \<noteq> [] \<longrightarrow>
                  map_of out ''_deleteWarnings'' = Some (JArr (map JStr (warnings dr)))) \<and>
               (warnings dr = [] \<longrightarrow>
                  JObj out = deref (objs (snd (makeOutput p result w2))) (fst (makeOutput p result w2)))))"
proof -
  let ?fid = "if p_audioSource p = ''binary'' then fileId else JUndefined"
  from deleteResources_effect [OF del] obtain cs where
    cs: "calls w2 = calls w1 @ cs" and heap: "objs w2 = objs w1"
    and methods: "list_all (\<lambda>c. req_method (sent c) = DELETE) cs"
    and count: "length (warnings dr) = length (filter (\<lambda>c. isl (outcome c)) cs)"
    and urls: "map (\<lambda>c. req_url (sent c)) cs =
                (if truthy tid then [''/v1/transcriptions/'' @ js_toString tid] else []) @
                (if truthy ?fid then [''/v1/files/'' @ js_toString ?fid] else [])"
    by blast
  from cs have new: "new_calls w1 w2 = cs"
    by (rule new_calls_append)
  have pairs: "map (\<lambda>c. (req_method (sent c), req_url (sent c))) cs =
      map (\<lambda>u. (DELETE, u)) (map (\<lambda>c. req_url (sent c)) cs)"
    using methods by (induction cs) simp_all
  have first: "map (\<lambda>c. (req_method (sent c), req_url (sent c))) (new_calls w1 w2) =
           (DELETE, ''/v1/transcriptions/'' @ js_toString tid) #
           (if p_audioSource p = ''binary'' \<and> truthy fileId then [(DELETE, ''/v1/files/'' @ js_toString fileId)]
            else [])"
    unfolding new pairs urls using tid by simp
  have second: "length (warnings dr) = length (filter (\<lambda>c. isl (outcome c)) (new_calls w1 w2))"
    unfolding new by (rule count)
  have cl: "(if p_autoDelete p then
            (case deleteResources en tid ?fid w1 of (deleteResult, w') \<Rightarrow> (warnings deleteResult, w'))
          else ([], w1)) = (warnings dr, w2)"
    using auto by (simp only: del if_True prod.case)
  note fin = finishCreate_wait_Part001 [OF wait id tid poll cl]
  have third: "\<forall>pollError. polled = Inl pollError \<longrightarrow>
            finishCreate Part001 en p fileId resp w = (Inl pollError, w2) \<and> objs w2 = objs w1"
    using fin heap by simp
  have fourth: "\<exists>r w3 out. finishCreate Part001 en p fileId resp w = (Inr r, w3) \<and> calls w3 = calls w2 \<and>
               deref (objs w3) r = JObj out \<and>
               (p_outputMode p = ''textOnly'' \<longrightarrow>
                  map_of out ''text'' =
                    Some (if get_opt (transcript result) ''text'' = JNull \<or>
                             get_opt (transcript result) ''text'' = JUndefined
                          then JStr [] else get_opt (transcript result) ''text'')) \<and>
               (p_outputMode p \<noteq> ''textOnly'' \<longrightarrow>
                  (\<forall>tkvs k. transcript result = JObj tkvs \<and> k \<noteq> ''webhook_auth_header_value'' \<and>
                       k \<noteq> ''_deleteWarnings'' \<longrightarrow> map_of out k = map_of tkvs k)) \<and>
               (warnings dr \<noteq> [] \<longrightarrow>
                  map_of out ''_deleteWarnings'' = Some (JArr (map JStr (warnings dr)))) \<and>
               (warnings dr = [] \<longrightarrow>
                  JObj out = deref (objs (snd (makeOutput p result w2))) (fst (makeOutput p result w2)))"
    if result: "polled = Inr result"
      and shape: "p_outputMode p = ''textOnly'' \<or> (\<exists>tkvs. transcript result = JObj tkvs)"
    for result
  proof -
    obtain r w3 where out: "makeOutput p result w2 = (r, w3)"
      by (cases "makeOutput p result w2")
    have base: "\<exists>base. calls w3 = calls w2 \<and> deref (objs w3) r = JObj base \<and>
        (p_outputMode p = ''textOnly'' \<longrightarrow>
           base = [(''text'', if get_opt (transcript result) ''text'' = JNull \<or>
                               get_opt (transcript result) ''text'' = JUndefined
                            then JStr [] else get_opt (transcript result) ''text'')]) \<and>
        (p_outputMode p \<noteq> ''textOnly'' \<longrightarrow>
           (\<forall>tkvs k. transcript result = JObj tkvs \<and> k \<noteq> ''webhook_auth_header_value'' \<longrightarrow>
              map_of base k = map_of tkvs k))"
    proof (cases "p_outputMode p = ''textOnly''")
      case True
      with makeOutput_text [OF True out] show ?thesis by simp
    next
      case False
      with shape obtain tkvs where t: "transcript result = JObj tkvs" by blast
      from makeOutput_full [OF False t out] False t show ?thesis by auto
    qed
    then obtain base where b: "calls w3 = calls w2" "deref (objs w3) r = JObj base"
      and only_text: "p_outputMode p = ''textOnly'' \<longrightarrow>
           base = [(''text'', if get_opt (transcript result) ''text'' = JNull \<or>
                               get_opt (transcript result) ''text'' = JUndefined
                            then JStr [] else get_opt (transcript result) ''text'')]"
      and whole: "p_outputMode p \<noteq> ''textOnly'' \<longrightarrow>
           (\<forall>tkvs k. transcript result = JObj tkvs \<and> k \<noteq> ''webhook_auth_header_value'' \<longrightarrow>
              map_of base k = map_of tkvs k)"
      by blast
    show ?thesis
    proof (cases "warnings dr = []")
      case True
      have "finishCreate Part001 en p fileId resp w = (Inr r, w3)"
        unfolding fin result sum.case out prod.case using True by simp
      with b only_text whole True out show ?thesis
        by (intro exI [of _ r] exI [of _ w3] exI [of _ base]) auto
    next
      case False
      let ?out = "AList.update ''_deleteWarnings'' (JArr (map JStr (warnings dr))) base"
      let ?w = "w3\<lparr>objs := (objs w3)[r := JObj ?out]\<rparr>"
      have "finishCreate Part001 en p fileId resp w = (Inr r, ?w)"
        unfolding fin result sum.case out prod.case
        using False set_property_object(1) [OF b(2)] by simp
      moreover have "deref (objs ?w) r = JObj ?out"
        using set_property_object(2) [OF b(2)] by simp
      moreover have "map_of ?out ''_deleteWarnings'' = Some (JArr (map JStr (warnings dr)))"
        by (rule map_of_update_same)
      moreover have "\<forall>k. k \<noteq> ''_deleteWarnings'' \<longrightarrow> map_of ?out k = map_of base k"
        by (simp add: map_of_update_other del: AList.update.simps)
      ultimately show ?thesis
        using b(1) only_text whole False
        by (intro exI [of _ r] exI [of _ ?w] exI [of _ ?out]) (auto simp del: AList.update.simps)
    qed
  qed
  from first second third fourth show ?thesis
    by blast
qed

lemmas error_defs =
  apiError_def extractErrorDetails_def detail_NodeTs_def cause_error_field_def cause_code_def
  body_field_def response_statusCode_def getErrorHint_def object_prototype_def tstr_def tnum_def str_of_def no_error_def
  codeHints_def statusHints_def show_int_def digit_char_def

lemma cleanup_poll:
  "pollForCompletion Part001 cleanup_env
     \<lparr>transcriptionId = JStr ''t1'', pollIntervalSec = p_pollIntervalSec example_params,
        maxWaitSec = p_maxWaitSec example_params\<rparr> start =
   (Inr \<lparr>status = JObj [(''status'', JStr ''completed'')], transcript = JObj [(''text'', JStr ''hello'')]\<rparr>,
    \<lparr>now = 0,
       calls = [\<lparr>sent = status_request \<lparr>transcriptionId = JStr ''t1'', pollIntervalSec = 1, maxWaitSec = 300\<rparr>,
                 outcome = Inr (JObj [(''status'', JStr ''completed'')]), answered = 0\<rparr>,
                \<lparr>sent = transcript_request \<lparr>transcriptionId = JStr ''t1'', pollIntervalSec = 1, maxWaitSec = 300\<rparr>,
                 outcome = Inr (JObj [(''text'', JStr ''hello'')]), answered = 0\<rparr>],
       objs = []\<rparr>)"
  by (simp add: cleanup_env_def run_defs example_params_def status_request_def transcript_request_def)

lemma cleanup_delete:
  "deleteResources cleanup_env (JStr ''t1'')
     (if p_audioSource example_params = ''binary'' then JUndefined else JUndefined)
     \<lparr>now = 0,
       calls = [\<lparr>sent = status_request \<lparr>transcriptionId = JStr ''t1'', pollIntervalSec = 1, maxWaitSec = 300\<rparr>,
                 outcome = Inr (JObj [(''status'', JStr ''completed'')]), answered = 0\<rparr>,
                \<lparr>sent = transcript_request \<lparr>transcriptionId = JStr ''t1'', pollIntervalSec = 1, maxWaitSec = 300\<rparr>,
                 outcome = Inr (JObj [(''text'', JStr ''hello'')]), answered = 0\<rparr>],
       objs = []\<rparr> =
   (\<lparr>deleted_transcription = None, deleted_file = None,
      warnings = [''Failed to delete transcription t1: gone'']\<rparr>,
    \<lparr>now = 0,
       calls = [\<lparr>sent = status_request \<lparr>transcriptionId = JStr ''t1'', pollIntervalSec = 1, maxWaitSec = 300\<rparr>,
                 outcome = Inr (JObj [(''status'', JStr ''completed'')]), answered = 0\<rparr>,
                \<lparr>sent = transcript_request \<lparr>transcriptionId = JStr ''t1'', pollIntervalSec = 1, maxWaitSec = 300\<rparr>,
                 outcome = Inr (JObj [(''text'', JStr ''hello'')]), answered = 0\<rparr>,
                \<lparr>sent = delete_request ''/v1/transcriptions/t1'',
                 outcome = Inl (no_error\<lparr>message := Some ''gone''\<rparr>), answered = 0\<rparr>],
       objs = []\<rparr>)"
  by (simp add: cleanup_env_def create_defs run_defs error_defs delete_request_def)

lemma cleanup_finish:
  "finishCreate Part001 cleanup_env example_params JUndefined (JObj [(''id'', JStr ''t1'')]) start =
   (Inr 0,
    \<lparr>now = 0,
       calls = [\<lparr>sent = status_request \<lparr>transcriptionId = JStr ''t1'', pollIntervalSec = 1, maxWaitSec = 300\<rparr>,
                 outcome = Inr (JObj [(''status'', JStr ''completed'')]), answered = 0\<rparr>,
                \<lparr>sent = transcript_request \<lparr>transcriptionId = JStr ''t1'', pollIntervalSec = 1, maxWaitSec = 300\<rparr>,
                 outcome = Inr (JObj [(''text'', JStr ''hello'')]), answered = 0\<rparr>,
                \<lparr>sent = delete_request ''/v1/transcriptions/t1'',
                 outcome = Inl (no_error\<lparr>message := Some ''gone''\<rparr>), answered = 0\<rparr>],
       objs = [JObj [(''text'', JStr ''hello''),
                     (''_deleteWarnings'', JArr [JStr ''Failed to delete transcription t1: gone''])]]\<rparr>)"
  by (simp add: cleanup_env_def create_defs run_defs error_defs delete_request_def status_request_def
        transcript_request_def)


theorem auto_delete_after_poll_witness:
  "p_waitForCompletion example_params \<and> p_autoDelete example_params \<and>
   get_member (JObj [(''id'', JStr ''t1'')]) ''id'' = Inr (JStr ''t1'') \<and> truthy (JStr ''t1'') \<and>
   fst (pollForCompletion Part001 cleanup_env
          \<lparr>transcriptionId = JStr ''t1'', pollIntervalSec = p_pollIntervalSec example_params,
             maxWaitSec = p_maxWaitSec example_params\<rparr> start) =
     Inr \<lparr>status = JObj [(''status'', JStr ''completed'')], transcript = JObj [(''text'', JStr ''hello'')]\<rparr> \<and>
   map (\<lambda>c. isl (outcome c))
     (calls (snd (finishCreate Part001 cleanup_env example_params JUndefined (JObj [(''id'', JStr ''t1'')]) start))) =
     [False, False, True] \<and>
   fst (finishCreate Part001 cleanup_env example_params JUndefined (JObj [(''id'', JStr ''t1'')]) start) = Inr 0 \<and>
   deref (objs (snd (finishCreate Part001 cleanup_env example_params JUndefined (JObj [(''id'', JStr ''t1'')]) start))) 0 =
     JObj [(''text'', JStr ''hello''),
           (''_deleteWarnings'', JArr [JStr ''Failed to delete transcription t1: gone''])]"
proof -
  have a: "p_waitForCompletion example_params" and b: "p_autoDelete example_params"
    by (simp_all add: example_params_def)
  have c: "get_member (JObj [(''id'', JStr ''t1'')]) ''id'' = Inr (JStr ''t1'')" and d: "truthy (JStr ''t1'')"
    by (simp_all add: get_prop_def)
  have run: "?thesis"
    using a b c d by (simp add: cleanup_finish cleanup_poll deref_def)
  from auto_delete_after_poll [OF a b c d cleanup_poll cleanup_delete] show ?thesis
    by - (rule run)
qed

subsection \<open>The message of a failed request\<close>





text \<open>The fallback at an error that holds only a status code; the text at a refused
  connection, which holds a common error code of the host library; and an error code that
  names an inherited member, where the description is that member and the text is as
  always.\<close>

lemma api_error_http_fallback:
  "fst (sonioxApiRequest Part001 (quiet_env (\<lambda>n rq. Inl (no_error\<lparr>httpCode := Some 500\<rparr>))) GET
          ''/v1/transcriptions/t1'' NoBody start) =
   Inl (NodeOperationError ''Soniox API error (HTTP 500)''
          (Some ''Soniox server error. Try again later or contact Soniox support.''))"
  by (simp add: sonioxApiRequest_def httpRequestWithAuthentication_def quiet_env_def start_def Let_def
      apiError_def extractErrorDetails_def cause_error_field_def cause_code_def body_field_def
      response_statusCode_def getErrorHint_def tstr_def tnum_def str_of_def no_error_def codeHints_def
      statusHints_def show_int_def digit_char_def object_prototype_def)

lemma api_error_refused_connection:
  "apiError Part001 (no_error\<lparr>message := Some ''connect ECONNREFUSED 127.0.0.1:443''\<rparr>) =
   NodeOperationError ''Soniox API error: connect ECONNREFUSED 127.0.0.1:443'' None"
  by (simp add: apiError_def extractErrorDetails_def cause_error_field_def cause_code_def body_field_def
      response_statusCode_def getErrorHint_def tstr_def tnum_def str_of_def no_error_def codeHints_def
      statusHints_def object_prototype_def Let_def)

lemma api_error_inherited_hint:
  "apiError Part001
     (no_error\<lparr>httpCode := Some 400,
                 cause := Some \<lparr>c_message = None, c_code = Some ''constructor'', c_error = None\<rparr>\<rparr>) =
   NodeOperationErrorInherited ''Soniox API error (HTTP 400)'' ''constructor''"
  by (simp add: apiError_def extractErrorDetails_def cause_error_field_def cause_code_def body_field_def
      response_statusCode_def getErrorHint_def tstr_def tnum_def str_of_def no_error_def codeHints_def
      statusHints_def object_prototype_def show_int_def digit_char_def Let_def)


subsection \<open>An array as structured context\<close>

text \<open>
  Claim C4 at the context \<^verbatim>\<open>"[1,2,3]"\<close> in src/nodes/Soniox/Soniox.node.ts:
  \<^verbatim>\<open>parseJsonValue\<close> returns the parsed array, the test
  \<^verbatim>\<open>context && typeof context === 'object' && Object.keys(context).length > 0\<close> holds for
  it, and the create operation succeeds with one create call whose body has the array as
  its context. No validation error is thrown.
\<close>

theorem array_context_is_sent:
  "isl (fst (create NodeTs array_env array_params start)) = False \<and>
   map (\<lambda>c. (req_method (sent c), req_url (sent c), context_sent c))
     (calls (snd (create NodeTs array_env array_params start))) =
     [(POST, ''/v1/transcriptions'', Some (JArr [JNum 1, JNum 2, JNum 3]))]"
  by (simp add: create_defs run_defs array_env_def array_params_def context_sent_def)

text \<open>src/unnamed/part_001 rejects the same input before any call, and rejects every text
  that parses to an array; an array that arrives as a value, not as a text, is dropped
  without an error.\<close>

lemma array_text_is_rejected:
  "create Part001 array_env array_params start =
     (Inl (NodeOperationError ''Invalid context: Context must be a JSON object, not an array or primitive''
             (Some ''Check that your context JSON is valid. The API expects an object with optional fields: general, text, terms, translation_terms.'')),
      start)"
  by (simp add: create_defs run_defs array_env_def array_params_def)

lemma array_text_rejected_always:
  assumes "json_parse en (js_trim s) = Inr (JArr xs)" and "js_trim s \<noteq> []"
  shows "parseStructuredContext en (JStr s) =
           Inl (ApplicationError ''Context must be a JSON object, not an array or primitive'')"
  using assms by (auto simp add: parseStructuredContext_def Let_def js_trim_def)

lemma array_value_is_dropped:
  "parseStructuredContext en (JArr xs) = Inr JUndefined"
  by (simp add: parseStructuredContext_def)

end
